theory Spec2Isabelle
  imports Complex_Main
begin

section \<open>Data model\<close>

text \<open>
  The converter of \<^verbatim>\<open>shapefile_reader.py\<close> works on a geopandas GeoDataFrame. The
  script itself contains no geometry arithmetic: it copies coordinates, reads type
  names and asks the libraries (shapely, pyproj, pandas) for centroids, text encodings,
  reprojection and number formatting. A coordinate is a pair of floats; the script only
  moves them around, so the carrier type of the ordinates plays no role and is taken to
  be \<^typ>\<open>real\<close>.
\<close>

type_synonym coord = "real \<times> real"

text \<open>
  A shapely geometry as \<^verbatim>\<open>gpd.read_file\<close> delivers it. \<^verbatim>\<open>Point None\<close> is the empty
  point (\<^verbatim>\<open>POINT EMPTY\<close>). A missing geometry is Python's \<^verbatim>\<open>None\<close> and is a cell value
  of its own (\<open>CNone\<close> below), not a geometry.
\<close>

datatype geometry =
    Point "coord option"
  | LineString "coord list"
  | Polygon "coord list" "coord list list"
  | MultiPoint "coord list"
  | MultiLineString "coord list list"
  | MultiPolygon "(coord list \<times> coord list list) list"
  | GeometryCollection "geometry list"

text \<open>The \<^verbatim>\<open>geom_type\<close> attribute of a shapely geometry.\<close>

fun geom_type :: "geometry \<Rightarrow> string" where
  "geom_type (Point _) = ''Point''"
| "geom_type (LineString _) = ''LineString''"
| "geom_type (Polygon _ _) = ''Polygon''"
| "geom_type (MultiPoint _) = ''MultiPoint''"
| "geom_type (MultiLineString _) = ''MultiLineString''"
| "geom_type (MultiPolygon _) = ''MultiPolygon''"
| "geom_type (GeometryCollection _) = ''GeometryCollection''"

text \<open>
  The value of one cell of a data frame, and the pandas dtype of a column. The geometry
  column of a GeoDataFrame has the extension dtype \<^verbatim>\<open>geometry\<close>; a column of Python
  objects (strings, \<^verbatim>\<open>None\<close>, mixed values) has dtype \<^verbatim>\<open>object\<close>.
\<close>

datatype cell =
    CNone
  | CNaN
  | CFloat real
  | CInt int
  | CBool bool
  | CStr string
  | CGeom geometry

datatype dtype = DObject | DGeometry | DFloat64 | DInt64 | DBool

record column =
  dtype :: dtype
  cells :: "cell list"

text \<open>
  A data frame is the ordered list of its named columns; the order is the order of the
  CSV header.
\<close>

type_synonym dataframe = "(string \<times> column) list"

text \<open>
  A pyproj CRS object, as far as the script looks at it: the result of \<^verbatim>\<open>to_epsg()\<close>
  (\<^verbatim>\<open>None\<close> when no EPSG code matches) and its printed form.
\<close>

datatype pyproj_crs = CRS (to_epsg: "int option") (srs: string)

text \<open>
  The GeoDataFrame that \<^verbatim>\<open>gpd.read_file\<close> returns: the coordinate reference system of the
  whole set (\<^verbatim>\<open>None\<close> when the file declares none), the attribute columns in file order,
  and one geometry (or \<^verbatim>\<open>None\<close>) per feature.
\<close>

record feature_set =
  crs :: "pyproj_crs option"
  attrs :: dataframe
  geoms :: "geometry option list"

definition n_features :: "feature_set \<Rightarrow> nat" where
  "n_features fs = length (geoms fs)"

text \<open>
  The invariant of a feature set: every feature has the same attribute schema (each
  attribute column has one cell per feature), attribute names are the keys of a mapping
  (pairwise distinct), and no attribute is called \<^verbatim>\<open>geometry\<close>, the name of
  the geometry column.
\<close>

definition wf_fs :: "feature_set \<Rightarrow> bool" where
  "wf_fs fs \<longleftrightarrow>
     distinct (map fst (attrs fs)) \<and>
     ''geometry'' \<notin> set (map fst (attrs fs)) \<and>
     list_all (\<lambda>(n, c). length (cells c) = length (geoms fs)) (attrs fs)"

definition geom_cell :: "geometry option \<Rightarrow> cell" where
  "geom_cell g = (case g of None \<Rightarrow> CNone | Some s \<Rightarrow> CGeom s)"

text \<open>The frame of a feature set: the attribute columns, then the geometry column.\<close>

definition frame_of :: "feature_set \<Rightarrow> dataframe" where
  "frame_of fs =
     attrs fs @ [(''geometry'', \<lparr>dtype = DGeometry, cells = map geom_cell (geoms fs)\<rparr>)]"

section \<open>Errors\<close>

text \<open>
  The exceptions that can leave the script or its library calls, each with its message
  (\<^verbatim>\<open>str(e)\<close>).
\<close>

datatype py_error =
    FileNotFoundError string
  | Exception string
  | ValueError string
  | KeyError string
  | AttributeError string
  | IndexError string
  | EmptyDataError string
  | ParserError string

fun err_str :: "py_error \<Rightarrow> string" where
  "err_str (FileNotFoundError m) = m"
| "err_str (Exception m) = m"
| "err_str (ValueError m) = m"
| "err_str (KeyError m) = m"
| "err_str (AttributeError m) = m"
| "err_str (IndexError m) = m"
| "err_str (EmptyDataError m) = m"
| "err_str (ParserError m) = m"

section \<open>The library interface\<close>

text \<open>
  What the script delegates to shapely, pyproj, pandas and pathlib and what no property
  depends on in detail is a parameter of the model:
  \<^item> \<open>centroid_xy\<close>: the coordinates of \<^verbatim>\<open>geom.centroid\<close> (\<open>None\<close>: the centroid is the
    empty point);
  \<^item> \<open>to_wkt\<close>: the Well-Known Text that \<^verbatim>\<open>GeoSeries.to_wkt()\<close> gives one geometry;
  \<^item> \<open>geom_str\<close>: \<^verbatim>\<open>str(geom)\<close>, also a Well-Known Text, with shapely's own precision;
  \<^item> \<open>transform\<close>: the coordinate transformation from a CRS to EPSG:4326;
  \<^item> \<open>float_str\<close>, \<open>int_str\<close>: how a number is printed;
  \<^item> \<open>with_suffix_csv\<close>: \<^verbatim>\<open>str(Path(p).with_suffix('.csv'))\<close>, which raises ValueError
    with a message (\<open>Inl\<close>) on a path with an empty name;
  \<^item> \<open>no_geometry_msg\<close>: the message of the AttributeError raised when a frame without
    geometry column is asked for its geometry;
  \<^item> \<open>key_error_msg\<close>: the message of the KeyError that \<^verbatim>\<open>drop\<close> raises for a column
    that is not there;
  \<^item> \<open>csv_as_vector\<close>: what \<^verbatim>\<open>gpd.read_file\<close> makes of a CSV file (a frame, or an error
    message);
  \<^item> \<open>parse_error_msg\<close>: the message of the error \<^verbatim>\<open>pd.read_csv\<close> raises on a file that
    is not a CSV file;
  \<^item> \<open>dedup_names\<close>: how \<^verbatim>\<open>pd.read_csv\<close> renames the column names of a header in which a
    name occurs twice.
\<close>

record geolib =
  centroid_xy :: "geometry \<Rightarrow> coord option"
  to_wkt :: "geometry \<Rightarrow> string"
  geom_str :: "geometry \<Rightarrow> string"
  transform :: "pyproj_crs \<Rightarrow> coord \<Rightarrow> coord"
  float_str :: "real \<Rightarrow> string"
  int_str :: "int \<Rightarrow> string"
  with_suffix_csv :: "string \<Rightarrow> string + string"
  no_geometry_msg :: string
  key_error_msg :: "string \<Rightarrow> string"
  csv_as_vector :: "string list \<Rightarrow> string list list \<Rightarrow> string + feature_set"
  parse_error_msg :: string
  dedup_names :: "string list \<Rightarrow> string list"

section \<open>Data frame operations\<close>

definition columns :: "dataframe \<Rightarrow> string list" where
  "columns df = map fst df"

text \<open>\<^verbatim>\<open>df[name] = col\<close>: an existing column is replaced where it stands, a new one is
  appended.\<close>

definition set_col :: "string \<Rightarrow> column \<Rightarrow> dataframe \<Rightarrow> dataframe" where
  "set_col name col df =
     (if name \<in> set (columns df)
      then map (\<lambda>(n, c). if n = name then (n, col) else (n, c)) df
      else df @ [(name, col)])"

text \<open>\<^verbatim>\<open>df.drop(columns=[name])\<close>: KeyError when there is no such column.\<close>

definition drop_column :: "geolib \<Rightarrow> string \<Rightarrow> dataframe \<Rightarrow> py_error + dataframe" where
  "drop_column lib name df =
     (if name \<in> set (columns df)
      then Inr (filter (\<lambda>(n, c). n \<noteq> name) df)
      else Inl (KeyError (key_error_msg lib name)))"

text \<open>\<^verbatim>\<open>df.geometry\<close>: the cells of the geometry column.\<close>

definition geometry_col :: "geolib \<Rightarrow> dataframe \<Rightarrow> py_error + cell list" where
  "geometry_col lib df =
     (case map_of df ''geometry'' of
        None \<Rightarrow> Inl (AttributeError (no_geometry_msg lib))
      | Some c \<Rightarrow> Inr (cells c))"

text \<open>\<^verbatim>\<open>Series.unique()\<close>: the distinct values in order of first appearance.\<close>

definition unique :: "'a list \<Rightarrow> 'a list" where
  "unique xs = rev (remdups (rev xs))"

subsection \<open>GeoSeries accessors\<close>

text \<open>\<^verbatim>\<open>GeoSeries.geom_type\<close>: the type name of each geometry, \<^verbatim>\<open>None\<close> for a missing one.\<close>

fun geom_type_cell :: "cell \<Rightarrow> cell" where
  "geom_type_cell (CGeom g) = CStr (geom_type g)"
| "geom_type_cell _ = CNone"

text \<open>
  \<^verbatim>\<open>GeoSeries.x\<close> and \<^verbatim>\<open>GeoSeries.y\<close>: geopandas raises ValueError unless every geometry
  that is not missing is a Point; an empty point and a missing geometry give NaN.
\<close>

fun is_point_or_na :: "cell \<Rightarrow> bool" where
  "is_point_or_na (CGeom (Point _)) = True"
| "is_point_or_na (CGeom _) = False"
| "is_point_or_na _ = True"

fun cell_x :: "cell \<Rightarrow> cell" where
  "cell_x (CGeom (Point (Some (x, y)))) = CFloat x"
| "cell_x _ = CNaN"

fun cell_y :: "cell \<Rightarrow> cell" where
  "cell_y (CGeom (Point (Some (x, y)))) = CFloat y"
| "cell_y _ = CNaN"

definition series_x :: "cell list \<Rightarrow> py_error + cell list" where
  "series_x gs =
     (if list_all is_point_or_na gs then Inr (map cell_x gs)
      else Inl (ValueError ''x attribute access only provided for Point geometries''))"

definition series_y :: "cell list \<Rightarrow> py_error + cell list" where
  "series_y gs =
     (if list_all is_point_or_na gs then Inr (map cell_y gs)
      else Inl (ValueError ''y attribute access only provided for Point geometries''))"

text \<open>\<^verbatim>\<open>GeoSeries.centroid\<close>: always a Point (maybe the empty one); missing stays missing.\<close>

fun centroid_cell :: "geolib \<Rightarrow> cell \<Rightarrow> cell" where
  "centroid_cell lib (CGeom g) = CGeom (Point (centroid_xy lib g))"
| "centroid_cell lib _ = CNone"

text \<open>\<^verbatim>\<open>GeoSeries.to_wkt()\<close>.\<close>

fun to_wkt_cell :: "geolib \<Rightarrow> cell \<Rightarrow> cell" where
  "to_wkt_cell lib (CGeom g) = CStr (to_wkt lib g)"
| "to_wkt_cell lib _ = CNone"

definition float_column :: "cell list \<Rightarrow> column" where
  "float_column cs = \<lparr>dtype = DFloat64, cells = cs\<rparr>"

definition object_column :: "cell list \<Rightarrow> column" where
  "object_column cs = \<lparr>dtype = DObject, cells = cs\<rparr>"

subsection \<open>Reprojection\<close>

text \<open>
  \<^verbatim>\<open>gdf.to_crs('EPSG:4326')\<close> transforms every coordinate of every geometry and keeps
  the structure of each geometry, the missing geometries and the attributes. On a frame
  without CRS it raises ValueError.
\<close>

fun transform_geom :: "(coord \<Rightarrow> coord) \<Rightarrow> geometry \<Rightarrow> geometry" where
  "transform_geom f (Point p) = Point (map_option f p)"
| "transform_geom f (LineString cs) = LineString (map f cs)"
| "transform_geom f (Polygon shell holes) = Polygon (map f shell) (map (map f) holes)"
| "transform_geom f (MultiPoint cs) = MultiPoint (map f cs)"
| "transform_geom f (MultiLineString ls) = MultiLineString (map (map f) ls)"
| "transform_geom f (MultiPolygon ps) =
     MultiPolygon (map (\<lambda>(shell, holes). (map f shell, map (map f) holes)) ps)"
| "transform_geom f (GeometryCollection gs) = GeometryCollection (map (transform_geom f) gs)"

definition epsg_4326 :: pyproj_crs where
  "epsg_4326 = CRS (Some 4326) ''EPSG:4326''"

definition to_crs_4326 :: "geolib \<Rightarrow> feature_set \<Rightarrow> py_error + feature_set" where
  "to_crs_4326 lib gdf =
     (case crs gdf of
        None \<Rightarrow>
          Inl (ValueError
            ''Cannot transform naive geometries.  Please set a crs on the object first.'')
      | Some c \<Rightarrow>
          Inr (gdf\<lparr>crs := Some epsg_4326,
                   geoms := map (map_option (transform_geom (transform lib c))) (geoms gdf)\<rparr>))"

section \<open>The converter\<close>

subsection \<open>Reprojection decision (lines 67 to 68)\<close>

text \<open>\<^verbatim>\<open>if gdf.crs and gdf.crs.to_epsg() != 4326: gdf = gdf.to_crs('EPSG:4326')\<close>. A CRS object
  is truthy; \<^verbatim>\<open>None\<close> is not.\<close>

definition reproject_step :: "geolib \<Rightarrow> feature_set \<Rightarrow> py_error + feature_set" where
  "reproject_step lib gdf =
     (case crs gdf of
        None \<Rightarrow> Inr gdf
      | Some c \<Rightarrow> if to_epsg c \<noteq> Some 4326 then to_crs_4326 lib gdf else Inr gdf)"

subsection \<open>Coordinate policy (lines 74 to 105)\<close>

text \<open>Lines 82 to 83: the x and y of the points.\<close>

definition point_columns :: "geolib \<Rightarrow> dataframe \<Rightarrow> py_error + dataframe" where
  "point_columns lib df =
     (case geometry_col lib df of
        Inl e \<Rightarrow> Inl e
      | Inr g \<Rightarrow>
         (case series_x g of
            Inl e \<Rightarrow> Inl e
          | Inr xs \<Rightarrow>
             (case series_y g of
                Inl e \<Rightarrow> Inl e
              | Inr ys \<Rightarrow>
                 Inr (set_col ''latitude'' (float_column ys)
                       (set_col ''longitude'' (float_column xs) df)))))"

text \<open>Lines 86 to 89 and, the same statements again, lines 94 to 97: the centroid's x and
  y and the type name.\<close>

definition centroid_columns :: "geolib \<Rightarrow> dataframe \<Rightarrow> py_error + dataframe" where
  "centroid_columns lib df =
     (case geometry_col lib df of
        Inl e \<Rightarrow> Inl e
      | Inr g \<Rightarrow>
         (let centroids = map (centroid_cell lib) g in
          case series_x centroids of
            Inl e \<Rightarrow> Inl e
          | Inr xs \<Rightarrow>
             (case series_y centroids of
                Inl e \<Rightarrow> Inl e
              | Inr ys \<Rightarrow>
                 Inr (set_col ''geometry_type'' (object_column (map geom_type_cell g))
                       (set_col ''latitude'' (float_column ys)
                         (set_col ''longitude'' (float_column xs) df))))))"

text \<open>Lines 103 to 104: the Well-Known Text and the type name.\<close>

definition wkt_columns :: "geolib \<Rightarrow> dataframe \<Rightarrow> py_error + dataframe" where
  "wkt_columns lib df =
     (case geometry_col lib df of
        Inl e \<Rightarrow> Inl e
      | Inr g \<Rightarrow>
         Inr (set_col ''geometry_type'' (object_column (map geom_type_cell g))
               (set_col ''geometry_wkt'' (object_column (map (to_wkt_cell lib) g)) df)))"

text \<open>The \<^verbatim>\<open>if\<close>/\<^verbatim>\<open>elif\<close> chain over \<^verbatim>\<open>coord_format\<close>. It has no \<^verbatim>\<open>else\<close>: any other string
  leaves the frame as it is.\<close>

definition flatten :: "geolib \<Rightarrow> bool \<Rightarrow> string \<Rightarrow> dataframe \<Rightarrow> py_error + dataframe" where
  "flatten lib include_geometry coord_format df =
     (if coord_format = ''none'' \<or> \<not> include_geometry then
        drop_column lib ''geometry'' df
      else if coord_format = ''separate'' then
        (case geometry_col lib df of
           Inl e \<Rightarrow> Inl e
         | Inr g \<Rightarrow>
            (let geom_types = unique (map geom_type_cell g) in
             case (if CStr ''Point'' \<in> set geom_types
                   then point_columns lib df else centroid_columns lib df) of
               Inl e \<Rightarrow> Inl e
             | Inr df' \<Rightarrow> drop_column lib ''geometry'' df'))
      else if coord_format = ''centroid'' then
        (case centroid_columns lib df of
           Inl e \<Rightarrow> Inl e
         | Inr df' \<Rightarrow> drop_column lib ''geometry'' df')
      else if coord_format = ''wkt'' then
        (case wkt_columns lib df of
           Inl e \<Rightarrow> Inl e
         | Inr df' \<Rightarrow> drop_column lib ''geometry'' df')
      else Inr df)"

subsection \<open>Clean-up scan (lines 108 to 114)\<close>

text \<open>\<^verbatim>\<open>hasattr(v, 'geom_type')\<close>: only a geometry object has the attribute.\<close>

fun has_geom_type :: "cell \<Rightarrow> bool" where
  "has_geom_type (CGeom _) = True"
| "has_geom_type _ = False"

text \<open>Python's \<^verbatim>\<open>str\<close> of a cell value, and \<^verbatim>\<open>Series.astype(str)\<close>.\<close>

fun py_str :: "geolib \<Rightarrow> cell \<Rightarrow> string" where
  "py_str lib CNone = ''None''"
| "py_str lib CNaN = ''nan''"
| "py_str lib (CFloat r) = float_str lib r"
| "py_str lib (CInt i) = int_str lib i"
| "py_str lib (CBool b) = (if b then ''True'' else ''False'')"
| "py_str lib (CStr s) = s"
| "py_str lib (CGeom g) = geom_str lib g"

definition astype_str :: "geolib \<Rightarrow> column \<Rightarrow> column" where
  "astype_str lib c = object_column (map (\<lambda>v. CStr (py_str lib v)) (cells c))"

text \<open>\<^verbatim>\<open>series.iloc[0]\<close>: IndexError on a column without rows.\<close>

definition iloc0 :: "cell list \<Rightarrow> py_error + cell" where
  "iloc0 cs =
     (case cs of
        [] \<Rightarrow> Inl (IndexError ''single positional indexer is out-of-bounds'')
      | v # _ \<Rightarrow> Inr v)"

text \<open>
  One round of the loop. The dtype test comes first; an IndexError of \<^verbatim>\<open>iloc[0]\<close> is
  swallowed by the \<^verbatim>\<open>except\<close> clause. (The first \<open>None\<close> branch is never taken: the loop
  runs over the frame's own column names.)
\<close>

definition cleanup_col :: "geolib \<Rightarrow> dataframe \<Rightarrow> string \<Rightarrow> dataframe" where
  "cleanup_col lib df col =
     (case map_of df col of
        None \<Rightarrow> df
      | Some c \<Rightarrow>
         if dtype c = DObject then
           (case iloc0 (cells c) of
              Inl e \<Rightarrow> df
            | Inr v \<Rightarrow> if has_geom_type v then set_col col (astype_str lib c) df else df)
         else df)"

definition cleanup :: "geolib \<Rightarrow> dataframe \<Rightarrow> dataframe" where
  "cleanup lib df = foldl (cleanup_col lib) df (columns df)"

subsection \<open>The table handed to the writer\<close>

definition output_table ::
  "geolib \<Rightarrow> bool \<Rightarrow> string \<Rightarrow> feature_set \<Rightarrow> py_error + dataframe" where
  "output_table lib include_geometry coord_format gdf =
     (case reproject_step lib gdf of
        Inl e \<Rightarrow> Inl e
      | Inr gdf' \<Rightarrow>
         (case flatten lib include_geometry coord_format (frame_of gdf') of
            Inl e \<Rightarrow> Inl e
          | Inr df \<Rightarrow> Inr (cleanup lib df)))"

section \<open>Files, standard output and the CSV writer\<close>

text \<open>
  A CSV file is modelled at the level of its records: the header and the data rows, each
  a list of text fields. Quoting and line ends are the business of pandas and are not
  modelled, beyond the lines that the reader takes for blank (see \<open>read_csv\<close> below).
\<close>

record csv_table =
  header :: "string list"
  rows :: "string list list"

datatype disk_file = Dataset feature_set | Unreadable string | CsvFile csv_table

text \<open>
  A line on standard output. Lines that the script builds from strings alone are kept as
  text; a line that formats a number, an array or a frame keeps the value printed.
\<close>

datatype out_line =
    Text string
  | Loaded nat
  | GeomTypes "cell list"
  | CrsLine "pyproj_crs option"
  | CsvShape nat nat
  | ColumnList "string list"
  | Preview csv_table

text \<open>
  The world the script runs in: the files by path, for each path the message of the error
  that writing to it would raise (\<open>None\<close>: it can be written), and what has been printed.
\<close>

record world =
  files :: "string \<Rightarrow> disk_file option"
  write_error :: "string \<Rightarrow> string option"
  stdout :: "out_line list"

definition print :: "out_line list \<Rightarrow> world \<Rightarrow> world" where
  "print ls w = w\<lparr>stdout := stdout w @ ls\<rparr>"

text \<open>\<^verbatim>\<open>gpd.read_file\<close>: the frame, or the message of the exception raised.\<close>

fun read_file :: "geolib \<Rightarrow> disk_file \<Rightarrow> string + feature_set" where
  "read_file lib (Dataset fs) = Inr fs"
| "read_file lib (Unreadable m) = Inl m"
| "read_file lib (CsvFile t) = csv_as_vector lib (header t) (rows t)"

text \<open>
  \<^verbatim>\<open>df.to_csv(path, index=False)\<close>: the header is the column names, then one row per
  row of the frame. A missing value is written as the empty field, a geometry object as
  its \<^verbatim>\<open>str\<close>. The frame has \<open>n\<close> rows (all columns of a frame have the same length; a
  frame without columns still has its rows).
\<close>

fun csv_field :: "geolib \<Rightarrow> cell \<Rightarrow> string" where
  "csv_field lib CNone = []"
| "csv_field lib CNaN = []"
| "csv_field lib v = py_str lib v"

definition to_csv :: "geolib \<Rightarrow> nat \<Rightarrow> dataframe \<Rightarrow> csv_table" where
  "to_csv lib n df =
     \<lparr>header = columns df,
      rows = map (\<lambda>i. map (\<lambda>(name, c). csv_field lib (cells c ! i)) df) [0..<n]\<rparr>"

text \<open>\<^verbatim>\<open>str(i)\<close> of a non-negative integer: its decimal digits.\<close>

function string_of_nat :: "nat \<Rightarrow> string" where
  "string_of_nat n =
     (if n < 10 then [''0123456789'' ! n]
      else string_of_nat (n div 10) @ [''0123456789'' ! (n mod 10)])"
  by pat_completeness auto
termination
  by (relation "measure id") auto

declare string_of_nat.simps [simp del]

text \<open>
  What \<^verbatim>\<open>pd.read_csv(path)\<close>, with its defaults, makes of the records that \<^verbatim>\<open>to_csv\<close> wrote.
  \<^item> Blank lines are skipped (\<^verbatim>\<open>skip_blank_lines=True\<close>). The writer puts a record without
    fields as an empty line and a record of one field as that field, quoted only when the
    field is empty or holds a delimiter, a quote or a line end; the reader takes a line
    that is empty or holds spaces and tabs only for blank. So a record is lost when it has
    no field, or one field that is not empty and consists of spaces and tabs.
  \<^item> The first line that is left is the header; when no line is left the reader raises
    EmptyDataError.
  \<^item> An empty column name at position \<open>i\<close> is read as \<^verbatim>\<open>Unnamed: i\<close>; the names are then
    left alone unless one occurs twice.
  \<^item> The lines after the header are the rows.
\<close>

definition blank_field :: "string \<Rightarrow> bool" where
  "blank_field f \<longleftrightarrow> f \<noteq> [] \<and> list_all (\<lambda>c. c = CHR '' '' \<or> c = CHR 0x09) f"

definition blank_line :: "string list \<Rightarrow> bool" where
  "blank_line r = (case r of [] \<Rightarrow> True | [f] \<Rightarrow> blank_field f | _ \<Rightarrow> False)"

definition read_header :: "geolib \<Rightarrow> string list \<Rightarrow> string list" where
  "read_header lib names =
     (let named = map (\<lambda>(i, n). if n = [] then ''Unnamed: '' @ string_of_nat i else n)
                      (enumerate 0 names)
      in if distinct named then named else dedup_names lib named)"

definition read_csv :: "geolib \<Rightarrow> world \<Rightarrow> string \<Rightarrow> py_error + csv_table" where
  "read_csv lib w path =
     (case files w path of
        None \<Rightarrow> Inl (FileNotFoundError path)
      | Some (CsvFile t) \<Rightarrow>
         (case filter (\<lambda>r. \<not> blank_line r) (header t # rows t) of
            [] \<Rightarrow> Inl (EmptyDataError ''No columns to parse from file'')
          | h # rs \<Rightarrow> Inr \<lparr>header = read_header lib h, rows = rs\<rparr>)
      | Some _ \<Rightarrow> Inl (ParserError (parse_error_msg lib)))"

subsection \<open>\<^verbatim>\<open>convert_shapefile_to_csv\<close>\<close>

text \<open>Lines 63 to 64: the destination path.\<close>

definition destination ::
  "geolib \<Rightarrow> string \<Rightarrow> string option \<Rightarrow> py_error + string" where
  "destination lib shp_path csv_path =
     (case csv_path of
        Some p \<Rightarrow> Inr p
      | None \<Rightarrow>
         (case with_suffix_csv lib shp_path of
            Inl m \<Rightarrow> Inl (ValueError m)
          | Inr p \<Rightarrow> Inr p))"

text \<open>
  The function returns the path (\<open>Inr\<close>) or raises (\<open>Inl\<close>), and leaves a world behind.
  A failed write leaves the files as they were.
\<close>

definition convert_shapefile_to_csv ::
  "geolib \<Rightarrow> string \<Rightarrow> string option \<Rightarrow> bool \<Rightarrow> string \<Rightarrow> world
     \<Rightarrow> (py_error + string) \<times> world" where
  "convert_shapefile_to_csv lib shp_path csv_path include_geometry coord_format w =
     (case files w shp_path of
        None \<Rightarrow> (Inl (FileNotFoundError (''Shapefile not found: '' @ shp_path)), w)
      | Some f \<Rightarrow>
         (case read_file lib f of
            Inl m \<Rightarrow> (Inl (Exception (''Error reading shapefile: '' @ m)), w)
          | Inr gdf \<Rightarrow>
             (let w1 = print [Loaded (n_features gdf),
                              GeomTypes (unique (map (\<lambda>g. geom_type_cell (geom_cell g))
                                                     (geoms gdf))),
                              CrsLine (crs gdf)] w
              in case destination lib shp_path csv_path of
                   Inl e \<Rightarrow> (Inl e, w1)
                 | Inr p \<Rightarrow>
                    (case output_table lib include_geometry coord_format gdf of
                       Inl e \<Rightarrow> (Inl e, w1)
                     | Inr df \<Rightarrow>
                        (case write_error w1 p of
                           Some m \<Rightarrow> (Inl (Exception (''Error saving CSV file: '' @ m)), w1)
                         | None \<Rightarrow>
                            (Inr p,
                             print [Text (''Successfully saved CSV to: '' @ p),
                                    CsvShape (n_features gdf) (length df),
                                    ColumnList (columns df)]
                               (w1\<lparr>files :=
                                     (files w1)(p \<mapsto>
                                        CsvFile (to_csv lib (n_features gdf) df))\<rparr>)))))))"

subsection \<open>\<^verbatim>\<open>main\<close>\<close>

text \<open>The namespace that \<^verbatim>\<open>parser.parse_args()\<close> returns.\<close>

record args =
  shapefile :: string
  output_arg :: "string option"
  coord_format_arg :: string
  no_geometry :: bool

definition choices :: "string list" where
  "choices = [''separate'', ''wkt'', ''centroid'', ''none'']"

text \<open>\<^verbatim>\<open>df.head()\<close>: the first five rows.\<close>

definition head :: "csv_table \<Rightarrow> csv_table" where
  "head t = t\<lparr>rows := take 5 (rows t)\<rparr>"

text \<open>
  The run of the command line: the world left behind and the exit code. argparse refuses
  a \<^verbatim>\<open>--coord-format\<close> outside its choices with exit code 2 before the \<^verbatim>\<open>try\<close> block;
  \<^verbatim>\<open>print("\n...")\<close> prints an empty line and then the text.
\<close>

definition main :: "geolib \<Rightarrow> args \<Rightarrow> world \<Rightarrow> world \<times> int" where
  "main lib a w =
     (if coord_format_arg a \<notin> set choices then (w, 2)
      else
        (case convert_shapefile_to_csv lib (shapefile a) (output_arg a)
                (\<not> no_geometry a) (coord_format_arg a) w of
           (Inl e, w1) \<Rightarrow> (print [Text (''Error: '' @ err_str e)] w1, 1)
         | (Inr csv_path, w1) \<Rightarrow>
            (let w2 = print [Text [], Text ''Conversion completed successfully!'',
                             Text (''Output file: '' @ csv_path)] w1
             in case read_csv lib w2 csv_path of
                  Inl e \<Rightarrow> (print [Text (''Error: '' @ err_str e)] w2, 1)
                | Inr t \<Rightarrow>
                   (print [Text [], Text ''Preview of first 5 rows:'', Preview (head t)] w2,
                    0))))"

section \<open>Vocabulary of the properties\<close>

text \<open>
  The values the properties speak of, written down independently of the accessors of the
  code: the native coordinates of a feature (NaN unless it is a non-empty point), the
  coordinates of its centroid, its type name and its Well-Known Text (\<^verbatim>\<open>None\<close> for a
  missing geometry).
\<close>

definition is_point :: "geometry option \<Rightarrow> bool" where
  "is_point g = (case g of Some (Point _) \<Rightarrow> True | _ \<Rightarrow> False)"

fun native_x :: "geometry option \<Rightarrow> cell" where
  "native_x (Some (Point (Some (x, y)))) = CFloat x"
| "native_x _ = CNaN"

fun native_y :: "geometry option \<Rightarrow> cell" where
  "native_y (Some (Point (Some (x, y)))) = CFloat y"
| "native_y _ = CNaN"

definition centroid_x :: "geolib \<Rightarrow> geometry option \<Rightarrow> cell" where
  "centroid_x lib g =
     (case g of
        None \<Rightarrow> CNaN
      | Some s \<Rightarrow> (case centroid_xy lib s of None \<Rightarrow> CNaN | Some (x, y) \<Rightarrow> CFloat x))"

definition centroid_y :: "geolib \<Rightarrow> geometry option \<Rightarrow> cell" where
  "centroid_y lib g =
     (case g of
        None \<Rightarrow> CNaN
      | Some s \<Rightarrow> (case centroid_xy lib s of None \<Rightarrow> CNaN | Some (x, y) \<Rightarrow> CFloat y))"

definition type_name :: "geometry option \<Rightarrow> cell" where
  "type_name g = (case g of None \<Rightarrow> CNone | Some s \<Rightarrow> CStr (geom_type s))"

definition wkt_text :: "geolib \<Rightarrow> geometry option \<Rightarrow> cell" where
  "wkt_text lib g = (case g of None \<Rightarrow> CNone | Some s \<Rightarrow> CStr (to_wkt lib s))"

text \<open>The feature set declares a CRS, and that CRS is not EPSG:4326.\<close>

definition needs_reprojection :: "feature_set \<Rightarrow> bool" where
  "needs_reprojection fs =
     (case crs fs of None \<Rightarrow> False | Some c \<Rightarrow> to_epsg c \<noteq> Some 4326)"

text \<open>The column names after \<^verbatim>\<open>df[n] = ...\<close>: a name that is there already keeps its
  place, a new one goes to the end.\<close>

definition add_name :: "string \<Rightarrow> string list \<Rightarrow> string list" where
  "add_name n ns = (if n \<in> set ns then ns else ns @ [n])"

text \<open>
  What the clean-up scan makes of one column: a column of dtype \<^verbatim>\<open>object\<close> with at least
  one row whose first cell is a geometry object is replaced by its \<^verbatim>\<open>astype(str)\<close>; every
  other column stays.
\<close>

definition needs_str :: "column \<Rightarrow> bool" where
  "needs_str c \<longleftrightarrow>
     dtype c = DObject \<and> (case cells c of [] \<Rightarrow> False | v # _ \<Rightarrow> has_geom_type v)"

definition scanned :: "geolib \<Rightarrow> column \<Rightarrow> column" where
  "scanned lib c = (if needs_str c then astype_str lib c else c)"

text \<open>The frames that the branches of the coordinate policy build from the attribute
  columns.\<close>

definition point_frame :: "feature_set \<Rightarrow> dataframe" where
  "point_frame fs =
     set_col ''latitude'' (float_column (map native_y (geoms fs)))
       (set_col ''longitude'' (float_column (map native_x (geoms fs))) (attrs fs))"

definition centroid_frame :: "geolib \<Rightarrow> feature_set \<Rightarrow> dataframe" where
  "centroid_frame lib fs =
     set_col ''geometry_type'' (object_column (map type_name (geoms fs)))
       (set_col ''latitude'' (float_column (map (centroid_y lib) (geoms fs)))
         (set_col ''longitude'' (float_column (map (centroid_x lib) (geoms fs))) (attrs fs)))"

definition wkt_frame :: "geolib \<Rightarrow> feature_set \<Rightarrow> dataframe" where
  "wkt_frame lib fs =
     set_col ''geometry_type'' (object_column (map type_name (geoms fs)))
       (set_col ''geometry_wkt'' (object_column (map (wkt_text lib) (geoms fs))) (attrs fs))"

text \<open>
  The coordinate policy cannot flatten a feature set in \<^verbatim>\<open>separate\<close> mode that has a Point
  next to a geometry of another type: the x accessor raises ValueError there.
\<close>

definition flattenable :: "bool \<Rightarrow> string \<Rightarrow> feature_set \<Rightarrow> bool" where
  "flattenable include_geometry coord_format fs \<longleftrightarrow>
     \<not> (include_geometry \<and> coord_format = ''separate'' \<and> list_ex is_point (geoms fs)
        \<and> \<not> list_all (\<lambda>g. g = None \<or> is_point g) (geoms fs))"

text \<open>
  The column names that the policy table of the spec (section 4.1) predicts, following
  its words: start with the attribute columns in their order; \<^verbatim>\<open>none\<close> (or no geometry
  wanted) adds nothing; \<^verbatim>\<open>separate\<close> adds longitude and latitude if any feature is a Point
  and longitude, latitude and geometry_type otherwise; \<^verbatim>\<open>centroid\<close> adds longitude,
  latitude and geometry_type; \<^verbatim>\<open>wkt\<close> adds geometry_wkt and geometry_type. A table has one
  column per name, so a name that is an attribute name already is not listed twice. The
  table has no row for any other mode.
\<close>

definition predicted_columns :: "bool \<Rightarrow> string \<Rightarrow> feature_set \<Rightarrow> string list" where
  "predicted_columns include_geometry coord_mode fs =
     (let names = columns (attrs fs) in
      if \<not> include_geometry \<or> coord_mode = ''none'' then names
      else if coord_mode = ''separate'' then
        (if list_ex is_point (geoms fs)
         then add_name ''latitude'' (add_name ''longitude'' names)
         else add_name ''geometry_type'' (add_name ''latitude'' (add_name ''longitude'' names)))
      else if coord_mode = ''centroid'' then
        add_name ''geometry_type'' (add_name ''latitude'' (add_name ''longitude'' names))
      else if coord_mode = ''wkt'' then
        add_name ''geometry_type'' (add_name ''geometry_wkt'' names)
      else names)"

text \<open>The field of the CSV file for a geometry (empty for a missing one), and the fields
  of one column of a CSV file.\<close>

definition geom_field :: "geolib \<Rightarrow> geometry option \<Rightarrow> string" where
  "geom_field lib g = (case g of None \<Rightarrow> [] | Some s \<Rightarrow> geom_str lib s)"

definition csv_column :: "csv_table \<Rightarrow> nat \<Rightarrow> string list" where
  "csv_column t j = map (\<lambda>r. r ! j) (rows t)"

section \<open>Example inputs\<close>

text \<open>A stand-in for the libraries, and small feature sets, for the concrete instances
  below.\<close>

definition example_lib :: geolib where
  "example_lib =
     \<lparr>centroid_xy = (\<lambda>g. case g of
                             Point p \<Rightarrow> p
                           | LineString [(a, b), (c, d)] \<Rightarrow> Some ((a + c) / 2, (b + d) / 2)
                           | _ \<Rightarrow> None),
      to_wkt = (\<lambda>g. ''WKT '' @ geom_type g),
      geom_str = (\<lambda>g. ''STR '' @ geom_type g),
      transform = (\<lambda>c (x, y). (x / 2, y / 2)),
      float_str = (\<lambda>r. ''F''),
      int_str = (\<lambda>i. ''I''),
      with_suffix_csv = (\<lambda>p. if p = [] then Inl ''empty name''
                              else Inr (takeWhile (\<lambda>c. c \<noteq> CHR ''.'') p @ ''.csv'')),
      no_geometry_msg = ''no geometry'',
      key_error_msg = (\<lambda>k. k),
      csv_as_vector = (\<lambda>h r. Inl ''not a vector file''),
      parse_error_msg = ''parse error'',
      dedup_names = (\<lambda>names. names)\<rparr>"

definition two_points :: feature_set where
  "two_points =
     \<lparr>crs = Some (CRS (Some 4326) ''EPSG:4326''),
      attrs = [(''name'', object_column [CStr ''a'', CStr ''b''])],
      geoms = [Some (Point (Some (1, 2))), Some (Point (Some (3, 4)))]\<rparr>"

definition no_features :: feature_set where
  "no_features = \<lparr>crs = None, attrs = [(''name'', object_column [])], geoms = []\<rparr>"

definition one_line :: feature_set where
  "one_line =
     \<lparr>crs = None,
      attrs = [(''name'', object_column [CStr ''a''])],
      geoms = [Some (LineString [(0, 0), (2, 4)])]\<rparr>"

definition web_point :: feature_set where
  "web_point =
     \<lparr>crs = Some (CRS (Some 3857) ''EPSG:3857''),
      attrs = [(''id'', \<lparr>dtype = DInt64, cells = [CInt 7]\<rparr>)],
      geoms = [Some (Point (Some (10, 20)))]\<rparr>"

definition bare_point :: feature_set where
  "bare_point = \<lparr>crs = None, attrs = [], geoms = [Some (Point (Some (1, 2)))]\<rparr>"

definition lon_point :: feature_set where
  "lon_point =
     \<lparr>crs = None,
      attrs = [(''longitude'', float_column [CFloat 9])],
      geoms = [Some (Point (Some (1, 2)))]\<rparr>"

definition shape_attr :: feature_set where
  "shape_attr =
     \<lparr>crs = None,
      attrs = [(''shape'', object_column [CGeom (Point (Some (1, 2)))]),
               (''id'', \<lparr>dtype = DInt64, cells = [CInt 7]\<rparr>)],
      geoms = [Some (LineString [(0, 0), (2, 4)])]\<rparr>"

text \<open>A directory with these feature sets, every path writable, nothing printed yet; and
  two command lines.\<close>

definition disk :: world where
  "disk =
     \<lparr>files = map_of [(''pts.shp'', Dataset two_points),
                       (''lines.shp'', Dataset one_line),
                       (''empty.shp'', Dataset no_features),
                       (''bare.shp'', Dataset bare_point),
                       (''lon.shp'', Dataset lon_point)],
      write_error = (\<lambda>p. None),
      stdout = []\<rparr>"

definition missing_args :: args where
  "missing_args =
     \<lparr>shapefile = ''nope.shp'', output_arg = None, coord_format_arg = ''separate'',
      no_geometry = False\<rparr>"

definition points_args :: args where
  "points_args =
     \<lparr>shapefile = ''pts.shp'', output_arg = None, coord_format_arg = ''separate'',
      no_geometry = False\<rparr>"

text \<open>Feature sets whose CSV does not read back as it was written: an attribute without a
  name, and a single attribute whose one value is a space; a directory with them and with
  the feature set in Web Mercator; and the command line that converts the feature set
  without attributes in mode \<^verbatim>\<open>none\<close>.\<close>

definition unnamed_attr :: feature_set where
  "unnamed_attr =
     \<lparr>crs = None,
      attrs = [([], object_column [CStr ''x'']), (''name'', object_column [CStr ''a''])],
      geoms = [Some (Point (Some (1, 2)))]\<rparr>"

definition blank_attr :: feature_set where
  "blank_attr =
     \<lparr>crs = None,
      attrs = [(''name'', object_column [CStr '' ''])],
      geoms = [Some (Point (Some (1, 2)))]\<rparr>"

definition odd_disk :: world where
  "odd_disk =
     \<lparr>files = map_of [(''web.shp'', Dataset web_point),
                       (''unnamed.shp'', Dataset unnamed_attr),
                       (''blank.shp'', Dataset blank_attr)],
      write_error = (\<lambda>p. None),
      stdout = []\<rparr>"

definition bare_args :: args where
  "bare_args =
     \<lparr>shapefile = ''bare.shp'', output_arg = None, coord_format_arg = ''none'',
      no_geometry = False\<rparr>"

section \<open>Lemmas on frames\<close>

lemma set_col_present:
  "n \<in> set (columns df) \<Longrightarrow>
     set_col n c df = map (\<lambda>(m, c'). (m, if m = n then c else c')) df"
  by (auto simp: set_col_def)

lemma set_col_absent: "n \<notin> set (columns df) \<Longrightarrow> set_col n c df = df @ [(n, c)]"
  by (simp add: set_col_def)

lemma columns_map_snd [simp]: "columns (map (\<lambda>(m, c). (m, f m c)) df) = columns df"
  by (induction df) (auto simp: columns_def)

lemma columns_set_col: "columns (set_col n c df) = add_name n (columns df)"
  by (cases "n \<in> set (columns df)")
     (simp_all add: set_col_present set_col_absent add_name_def, simp add: columns_def)

lemma map_of_map_snd:
  "map_of (map (\<lambda>(m, c). (m, f m c)) df) k = map_option (f k) (map_of df k)"
  by (induction df) auto

lemma map_of_replace:
  "map_of (map (\<lambda>(m, c'). (m, if m = n then c else c')) df) k
     = (if k = n then map_option (\<lambda>_. c) (map_of df n) else map_of df k)"
  by (induction df) auto

lemma in_columns_iff: "n \<in> set (columns df) \<longleftrightarrow> map_of df n \<noteq> None"
  by (simp add: columns_def map_of_eq_None_iff)

lemma map_of_set_col:
  "map_of (set_col n c df) k = (if k = n then Some c else map_of df k)"
proof (cases "n \<in> set (columns df)")
  case True
  then obtain d where "map_of df n = Some d"
    by (auto simp: in_columns_iff)
  with True show ?thesis
    by (simp add: set_col_present map_of_replace)
next
  case False
  then have "map_of df n = None"
    by (simp add: in_columns_iff)
  with False show ?thesis
    by (auto simp: set_col_absent map_add_def split: option.splits)
qed

lemma distinct_add_name: "distinct ns \<Longrightarrow> distinct (add_name n ns)"
  by (simp add: add_name_def)

lemma columns_drop:
  "columns (filter (\<lambda>(k, c). k \<noteq> g) df) = filter (\<lambda>k. k \<noteq> g) (columns df)"
  by (induction df) (auto simp: columns_def)

lemma drop_set_col:
  assumes "n \<noteq> g"
  shows "filter (\<lambda>(k, c). k \<noteq> g) (set_col n c df)
           = set_col n c (filter (\<lambda>(k, c). k \<noteq> g) df)"
proof (cases "n \<in> set (columns df)")
  case True
  with assms have "n \<in> set (columns (filter (\<lambda>(k, c). k \<noteq> g) df))"
    by (simp add: columns_drop)
  moreover have "(\<lambda>(k, c). k \<noteq> g) \<circ> (\<lambda>(m, c'). (m, if m = n then c else c'))
                   = (\<lambda>(k, c). k \<noteq> g)"
    by (auto simp: fun_eq_iff)
  ultimately show ?thesis
    using True by (simp add: set_col_present filter_map)
next
  case False
  then have "n \<notin> set (columns (filter (\<lambda>(k, c). k \<noteq> g) df))"
    by (simp add: columns_drop)
  with False assms show ?thesis
    by (simp add: set_col_absent)
qed

lemma cleanup_col_step:
  assumes "distinct (columns df)" and "a \<in> set (columns df)"
  shows "cleanup_col lib df a = map (\<lambda>(n, c). (n, if n = a then scanned lib c else c)) df"
proof -
  from assms(2) obtain c where c: "map_of df a = Some c"
    by (auto simp: in_columns_iff)
  have only: "\<And>n c'. (n, c') \<in> set df \<Longrightarrow> n = a \<Longrightarrow> c' = c"
    using assms(1) c by (auto simp: columns_def)
  have same: "map (\<lambda>(n, c'). (n, if n = a then c else c')) df = df"
    using only by (intro map_idI) auto
  have repl: "\<And>d. map (\<lambda>(n, c'). (n, if n = a then scanned lib c' else c')) df
        = map (\<lambda>(n, c'). (n, if n = a then scanned lib c else c')) df"
    using only by (intro map_cong) auto
  have "cleanup_col lib df a
          = (if needs_str c then set_col a (astype_str lib c) df else df)"
    using c by (auto simp: cleanup_col_def iloc0_def needs_str_def split: list.splits)
  also have "\<dots> = map (\<lambda>(n, c'). (n, if n = a then scanned lib c else c')) df"
  proof (cases "needs_str c")
    case True
    then have "astype_str lib c = scanned lib c"
      by (simp add: scanned_def)
    with True assms(2) show ?thesis
      by (simp add: set_col_present)
  next
    case False
    then have sc: "scanned lib c = c"
      by (simp add: scanned_def)
    from False show ?thesis
      by (simp only: sc same if_False)
  qed
  finally show ?thesis
    by (simp add: repl)
qed

lemma cleanup_fold:
  "distinct (columns df) \<Longrightarrow> distinct ns \<Longrightarrow> set ns \<subseteq> set (columns df) \<Longrightarrow>
     foldl (cleanup_col lib) df ns
       = map (\<lambda>(n, c). (n, if n \<in> set ns then scanned lib c else c)) df"
proof (induction ns arbitrary: df)
  case Nil
  then show ?case by (simp add: case_prod_beta)
next
  case (Cons a ns)
  let ?df = "map (\<lambda>(n, c). (n, if n = a then scanned lib c else c)) df"
  have step: "cleanup_col lib df a = ?df"
    using Cons.prems by (simp add: cleanup_col_step)
  have "foldl (cleanup_col lib) ?df ns
          = map (\<lambda>(n, c). (n, if n \<in> set ns then scanned lib c else c)) ?df"
    using Cons.prems by (intro Cons.IH) auto
  also have "\<dots> = map (\<lambda>(n, c). (n, if n \<in> set (a # ns) then scanned lib c else c)) df"
    using Cons.prems(2) by (auto simp: case_prod_beta)
  finally show ?case by (simp add: step)
qed

lemma cleanup_eq:
  assumes "distinct (columns df)"
  shows "cleanup lib df = map (\<lambda>(n, c). (n, scanned lib c)) df"
proof -
  have "\<And>n c. (n, c) \<in> set df \<Longrightarrow> n \<in> set (columns df)"
    by (force simp: columns_def)
  then have "map (\<lambda>(n, c). (n, if n \<in> set (columns df) then scanned lib c else c)) df
               = map (\<lambda>(n, c). (n, scanned lib c)) df"
    by (intro map_cong) auto
  with assms show ?thesis
    unfolding cleanup_def by (simp add: cleanup_fold)
qed

lemma cell_x_geom_cell [simp]: "cell_x (geom_cell g) = native_x g"
  by (cases g rule: native_x.cases) (simp_all add: geom_cell_def)

lemma cell_y_geom_cell [simp]: "cell_y (geom_cell g) = native_y g"
  by (cases g rule: native_y.cases) (simp_all add: geom_cell_def)

lemma cell_x_centroid [simp]: "cell_x (centroid_cell lib (geom_cell g)) = centroid_x lib g"
  by (auto simp: geom_cell_def centroid_x_def split: option.splits)

lemma cell_y_centroid [simp]: "cell_y (centroid_cell lib (geom_cell g)) = centroid_y lib g"
  by (auto simp: geom_cell_def centroid_y_def split: option.splits)

lemma geom_type_cell_geom_cell [simp]: "geom_type_cell (geom_cell g) = type_name g"
  by (simp add: geom_cell_def type_name_def split: option.splits)

lemma to_wkt_cell_geom_cell [simp]: "to_wkt_cell lib (geom_cell g) = wkt_text lib g"
  by (simp add: geom_cell_def wkt_text_def split: option.splits)

lemma geom_type_Point_iff: "geom_type s = ''Point'' \<longleftrightarrow> (\<exists>p. s = Point p)"
  by (cases s) simp_all

lemma type_name_Point_iff: "type_name g = CStr ''Point'' \<longleftrightarrow> is_point g"
  by (auto simp: type_name_def is_point_def geom_type_Point_iff split: option.splits geometry.splits)

lemma set_unique [simp]: "set (unique xs) = set xs"
  by (simp add: unique_def)

lemma centroids_are_points: "list_all is_point_or_na (map (centroid_cell lib) cs)"
proof -
  have "\<And>c. is_point_or_na (centroid_cell lib c)"
    by (rule centroid_cell.induct) simp_all
  then show ?thesis by (simp add: list_all_iff)
qed

lemma point_or_na_geom_cell:
  "is_point_or_na (geom_cell g) \<longleftrightarrow> g = None \<or> is_point g"
  by (auto simp: geom_cell_def is_point_def split: option.splits geometry.splits)

lemma geom_type_transform [simp]: "geom_type (transform_geom f s) = geom_type s"
  by (cases s) simp_all

lemma is_point_transform [simp]: "is_point (map_option (transform_geom f) g) = is_point g"
  by (auto simp: is_point_def split: option.splits geometry.splits)

lemma type_name_transform [simp]: "type_name (map_option (transform_geom f) g) = type_name g"
  by (simp add: type_name_def split: option.splits)

lemma reproject_step_eq:
  "reproject_step lib fs
     = Inr (if needs_reprojection fs
            then fs\<lparr>crs := Some epsg_4326,
                    geoms := map (map_option (transform_geom (transform lib (the (crs fs)))))
                                 (geoms fs)\<rparr>
            else fs)"
  by (simp add: reproject_step_def needs_reprojection_def to_crs_4326_def split: option.splits)

lemma reproject_step_facts:
  assumes "reproject_step lib fs = Inr fs'"
  shows "attrs fs' = attrs fs" and "length (geoms fs') = length (geoms fs)"
    and "map is_point (geoms fs') = map is_point (geoms fs)"
    and "map type_name (geoms fs') = map type_name (geoms fs)"
    and "wf_fs fs \<Longrightarrow> wf_fs fs'"
    and "\<not> needs_reprojection fs \<Longrightarrow> fs' = fs"
  using assms by (auto simp: reproject_step_eq wf_fs_def split: if_splits)

lemma geometry_col_frame:
  "''geometry'' \<notin> set (columns (attrs fs)) \<Longrightarrow>
     geometry_col lib (frame_of fs) = Inr (map geom_cell (geoms fs))"
  by (auto simp: geometry_col_def frame_of_def in_columns_iff map_add_def split: option.splits)

lemma geometry_col_set_col:
  "n \<noteq> ''geometry'' \<Longrightarrow> geometry_col lib (set_col n c df) = geometry_col lib df"
  by (simp add: geometry_col_def map_of_set_col)

lemma drop_frame:
  assumes "''geometry'' \<notin> set (columns (attrs fs))"
  shows "drop_column lib ''geometry'' (frame_of fs) = Inr (attrs fs)"
proof -
  have "filter (\<lambda>(k, c). k \<noteq> ''geometry'') (attrs fs) = attrs fs"
    using assms by (force simp: columns_def filter_id_conv)
  then show ?thesis
    by (simp add: drop_column_def frame_of_def columns_def)
qed

lemma in_columns_set_col: "k \<in> set (columns (set_col n c df)) \<longleftrightarrow> k = n \<or> k \<in> set (columns df)"
  by (auto simp: columns_set_col add_name_def)

lemma drop_set_col_frame:
  assumes "n \<noteq> ''geometry''" and "drop_column lib ''geometry'' df = Inr df'"
  shows "drop_column lib ''geometry'' (set_col n c df) = Inr (set_col n c df')"
  using assms
  by (auto simp: drop_column_def in_columns_set_col drop_set_col split: if_splits)

lemma flatten_none:
  assumes "wf_fs fs" and "coord_format = ''none'' \<or> \<not> include_geometry"
  shows "flatten lib include_geometry coord_format (frame_of fs) = Inr (attrs fs)"
  using assms by (auto simp: flatten_def drop_frame wf_fs_def columns_def)

lemma centroids_fused:
  "list_all is_point_or_na (map (\<lambda>x. centroid_cell lib (f x)) xs)"
  using centroids_are_points [of lib "map f xs"] by (simp add: comp_def)

lemma point_columns_frame:
  assumes "wf_fs fs" and "list_all (\<lambda>g. g = None \<or> is_point g) (geoms fs)"
  shows "\<exists>df. point_columns lib (frame_of fs) = Inr df
           \<and> drop_column lib ''geometry'' df = Inr (point_frame fs)"
proof -
  have g: "''geometry'' \<notin> set (columns (attrs fs))"
    using assms(1) by (simp add: wf_fs_def columns_def)
  have pts: "list_all is_point_or_na (map geom_cell (geoms fs))"
    using assms(2) by (simp add: list_all_iff point_or_na_geom_cell)
  show ?thesis
    using g pts
    by (simp add: point_columns_def geometry_col_frame series_x_def series_y_def
          drop_set_col_frame drop_frame point_frame_def comp_def)
qed

lemma centroid_columns_frame:
  assumes "wf_fs fs"
  shows "\<exists>df. centroid_columns lib (frame_of fs) = Inr df
           \<and> drop_column lib ''geometry'' df = Inr (centroid_frame lib fs)"
proof -
  have g: "''geometry'' \<notin> set (columns (attrs fs))"
    using assms(1) by (simp add: wf_fs_def columns_def)
  show ?thesis
    using g
    by (simp add: centroid_columns_def geometry_col_frame series_x_def series_y_def Let_def
          centroids_fused drop_set_col_frame drop_frame centroid_frame_def comp_def)
qed

lemma wkt_columns_frame:
  assumes "wf_fs fs"
  shows "\<exists>df. wkt_columns lib (frame_of fs) = Inr df
           \<and> drop_column lib ''geometry'' df = Inr (wkt_frame lib fs)"
proof -
  have g: "''geometry'' \<notin> set (columns (attrs fs))"
    using assms(1) by (simp add: wf_fs_def columns_def)
  show ?thesis
    using g
    by (simp add: wkt_columns_def geometry_col_frame
          drop_set_col_frame drop_frame wkt_frame_def comp_def)
qed

lemma point_in_types:
  "CStr ''Point'' \<in> type_name ` set gs \<longleftrightarrow> (\<exists>g \<in> set gs. is_point g)"
proof -
  have "\<And>g. CStr ''Point'' = type_name g \<longleftrightarrow> is_point g"
    using type_name_Point_iff by (metis (no_types))
  then show ?thesis
    by (auto simp: image_iff)
qed

lemma flatten_separate_points:
  assumes "wf_fs fs" and "list_all (\<lambda>g. g = None \<or> is_point g) (geoms fs)"
    and "\<exists>g \<in> set (geoms fs). is_point g"
  shows "flatten lib True ''separate'' (frame_of fs) = Inr (point_frame fs)"
proof -
  have g: "''geometry'' \<notin> set (columns (attrs fs))"
    using assms(1) by (simp add: wf_fs_def columns_def)
  obtain df where "point_columns lib (frame_of fs) = Inr df"
    and "drop_column lib ''geometry'' df = Inr (point_frame fs)"
    using point_columns_frame [OF assms(1,2)] by blast
  then show ?thesis
    using g assms(3) by (simp add: flatten_def geometry_col_frame point_in_types)
qed

lemma flatten_separate_no_point:
  assumes "wf_fs fs" and "\<not> (\<exists>g \<in> set (geoms fs). is_point g)"
  shows "flatten lib True ''separate'' (frame_of fs) = Inr (centroid_frame lib fs)"
proof -
  have g: "''geometry'' \<notin> set (columns (attrs fs))"
    using assms(1) by (simp add: wf_fs_def columns_def)
  obtain df where "centroid_columns lib (frame_of fs) = Inr df"
    and "drop_column lib ''geometry'' df = Inr (centroid_frame lib fs)"
    using centroid_columns_frame [OF assms(1)] by blast
  then show ?thesis
    using g assms(2) by (simp add: flatten_def geometry_col_frame point_in_types)
qed

lemma flatten_centroid:
  assumes "wf_fs fs"
  shows "flatten lib True ''centroid'' (frame_of fs) = Inr (centroid_frame lib fs)"
proof -
  obtain df where "centroid_columns lib (frame_of fs) = Inr df"
    and "drop_column lib ''geometry'' df = Inr (centroid_frame lib fs)"
    using centroid_columns_frame [OF assms(1)] by blast
  then show ?thesis
    by (simp add: flatten_def)
qed

lemma flatten_wkt:
  assumes "wf_fs fs"
  shows "flatten lib True ''wkt'' (frame_of fs) = Inr (wkt_frame lib fs)"
proof -
  obtain df where "wkt_columns lib (frame_of fs) = Inr df"
    and "drop_column lib ''geometry'' df = Inr (wkt_frame lib fs)"
    using wkt_columns_frame [OF assms(1)] by blast
  then show ?thesis
    by (simp add: flatten_def)
qed

lemma flatten_other:
  assumes "coord_format \<notin> set choices"
  shows "flatten lib True coord_format df = Inr df"
  using assms by (simp add: flatten_def choices_def)

lemma output_table_eq:
  assumes "reproject_step lib fs = Inr fs'"
    and "flatten lib include_geometry coord_format (frame_of fs') = Inr df"
    and "distinct (columns df)"
  shows "output_table lib include_geometry coord_format fs
           = Inr (map (\<lambda>(n, c). (n, scanned lib c)) df)"
  using assms by (simp add: output_table_def cleanup_eq)

lemma map_of_scanned:
  "map_of (map (\<lambda>(n, c). (n, scanned lib c)) df) k = map_option (scanned lib) (map_of df k)"
  by (induction df) auto

lemma scanned_float [simp]: "scanned lib (float_column cs) = float_column cs"
  by (simp add: scanned_def needs_str_def float_column_def)

lemma scanned_type_names [simp]:
  "scanned lib (object_column (map type_name gs)) = object_column (map type_name gs)"
  by (cases gs) (auto simp: scanned_def needs_str_def object_column_def type_name_def
        split: option.splits)

lemma scanned_wkt [simp]:
  "scanned lib (object_column (map (wkt_text lib) gs)) = object_column (map (wkt_text lib) gs)"
  by (cases gs) (auto simp: scanned_def needs_str_def object_column_def wkt_text_def
        split: option.splits)

lemma distinct_attrs: "wf_fs fs \<Longrightarrow> distinct (columns (attrs fs))"
  by (simp add: wf_fs_def columns_def)

lemmas frame_defs =
  output_table_def reproject_step_def flatten_def frame_of_def geometry_col_def geom_cell_def
  unique_def point_columns_def centroid_columns_def wkt_columns_def series_x_def series_y_def
  set_col_def columns_def float_column_def object_column_def drop_column_def cleanup_def
  cleanup_col_def iloc0_def astype_str_def to_crs_4326_def epsg_4326_def

lemma list_all_map_eq:
  assumes "map P xs = map P ys"
  shows "list_all P xs = list_all P ys"
proof -
  have "list_all P xs = list_all (\<lambda>b. b) (map P xs)"
    by (simp add: list.pred_map comp_def)
  also have "\<dots> = list_all (\<lambda>b. b) (map P ys)"
    by (simp only: assms)
  also have "\<dots> = list_all P ys"
    by (simp add: list.pred_map comp_def)
  finally show ?thesis .
qed

section \<open>Lemmas on the coordinate policy, the writer and the converter\<close>

lemma series_x_Inr: "series_x gs = Inr xs \<Longrightarrow> list_all is_point_or_na gs"
  by (simp add: series_x_def split: if_splits)

lemma flatten_separate_mixed:
  assumes "wf_fs fs" and "\<exists>g \<in> set (geoms fs). is_point g"
    and "\<not> list_all (\<lambda>g. g = None \<or> is_point g) (geoms fs)"
  shows "flatten lib True ''separate'' (frame_of fs)
           = Inl (ValueError ''x attribute access only provided for Point geometries'')"
proof -
  have g: "''geometry'' \<notin> set (columns (attrs fs))"
    using assms(1) by (simp add: wf_fs_def columns_def)
  have "\<not> list_all is_point_or_na (map geom_cell (geoms fs))"
    using assms(3) by (simp add: list_all_iff point_or_na_geom_cell)
  then have "point_columns lib (frame_of fs)
               = Inl (ValueError ''x attribute access only provided for Point geometries'')"
    using g by (simp add: point_columns_def geometry_col_frame series_x_def)
  then show ?thesis
    using g assms(2) by (simp add: flatten_def geometry_col_frame point_in_types)
qed

lemma flatten_result:
  assumes "wf_fs fs" and "flatten lib include_geometry coord_format (frame_of fs) = Inr df"
  shows "df = (if \<not> include_geometry \<or> coord_format = ''none'' then attrs fs
               else if coord_format = ''separate'' then
                 (if list_ex is_point (geoms fs) then point_frame fs
                  else centroid_frame lib fs)
               else if coord_format = ''centroid'' then centroid_frame lib fs
               else if coord_format = ''wkt'' then wkt_frame lib fs
               else frame_of fs)"
    and "flattenable include_geometry coord_format fs"
proof -
  consider (none) "\<not> include_geometry \<or> coord_format = ''none''"
    | (pts) "include_geometry" "coord_format = ''separate''" "list_ex is_point (geoms fs)"
    | (cen) "include_geometry" "coord_format = ''separate''" "\<not> list_ex is_point (geoms fs)"
    | (centroid) "include_geometry" "coord_format = ''centroid''"
    | (wkt) "include_geometry" "coord_format = ''wkt''"
    | (other) "include_geometry" "coord_format \<notin> set choices"
    by (auto simp: choices_def)
  then have "df = (if \<not> include_geometry \<or> coord_format = ''none'' then attrs fs
               else if coord_format = ''separate'' then
                 (if list_ex is_point (geoms fs) then point_frame fs
                  else centroid_frame lib fs)
               else if coord_format = ''centroid'' then centroid_frame lib fs
               else if coord_format = ''wkt'' then wkt_frame lib fs
               else frame_of fs) \<and> flattenable include_geometry coord_format fs"
  proof cases
    case none
    then show ?thesis
      using flatten_none [OF assms(1) disj_commute [THEN iffD1, OF none], of lib] assms(2)
      by (auto simp: flattenable_def)
  next
    case pts
    then have ex: "\<exists>g \<in> set (geoms fs). is_point g"
      by (simp add: list_ex_iff)
    show ?thesis
    proof (cases "list_all (\<lambda>g. g = None \<or> is_point g) (geoms fs)")
      case True
      then show ?thesis
        using flatten_separate_points [OF assms(1) True ex, of lib] assms(2) pts
        by (simp add: flattenable_def)
    next
      case False
      then show ?thesis
        using flatten_separate_mixed [OF assms(1) ex False, of lib] assms(2) pts by simp
    qed
  next
    case cen
    then have "\<not> (\<exists>g \<in> set (geoms fs). is_point g)"
      by (simp add: list_ex_iff)
    then show ?thesis
      using flatten_separate_no_point [OF assms(1), of lib] assms(2) cen
      by (simp add: flattenable_def)
  next
    case centroid
    then show ?thesis
      using flatten_centroid [OF assms(1), of lib] assms(2)
      by (simp add: flattenable_def)
  next
    case wkt
    then show ?thesis
      using flatten_wkt [OF assms(1), of lib] assms(2)
      by (simp add: flattenable_def)
  next
    case other
    then show ?thesis
      using flatten_other [OF other(2), of lib "frame_of fs"] assms(2)
      by (auto simp: flattenable_def choices_def)
  qed
  then show "df = (if \<not> include_geometry \<or> coord_format = ''none'' then attrs fs
               else if coord_format = ''separate'' then
                 (if list_ex is_point (geoms fs) then point_frame fs
                  else centroid_frame lib fs)
               else if coord_format = ''centroid'' then centroid_frame lib fs
               else if coord_format = ''wkt'' then wkt_frame lib fs
               else frame_of fs)"
    and "flattenable include_geometry coord_format fs"
    by simp_all
qed

lemma flatten_total:
  assumes "wf_fs fs" and "flattenable include_geometry coord_format fs"
  shows "\<exists>df. flatten lib include_geometry coord_format (frame_of fs) = Inr df"
proof -
  consider (none) "\<not> include_geometry \<or> coord_format = ''none''"
    | (pts) "include_geometry" "coord_format = ''separate''" "list_ex is_point (geoms fs)"
    | (cen) "include_geometry" "coord_format = ''separate''" "\<not> list_ex is_point (geoms fs)"
    | (centroid) "include_geometry" "coord_format = ''centroid''"
    | (wkt) "include_geometry" "coord_format = ''wkt''"
    | (other) "include_geometry" "coord_format \<notin> set choices"
    by (auto simp: choices_def)
  then show ?thesis
  proof cases
    case none
    then show ?thesis
      using flatten_none [OF assms(1) disj_commute [THEN iffD1, OF none], of lib] by simp
  next
    case pts
    then have ex: "\<exists>g \<in> set (geoms fs). is_point g"
      by (simp add: list_ex_iff)
    have "list_all (\<lambda>g. g = None \<or> is_point g) (geoms fs)"
      using assms(2) pts by (simp add: flattenable_def)
    then show ?thesis
      using flatten_separate_points [OF assms(1) _ ex, of lib] pts by simp
  next
    case cen
    then have "\<not> (\<exists>g \<in> set (geoms fs). is_point g)"
      by (simp add: list_ex_iff)
    then show ?thesis
      using flatten_separate_no_point [OF assms(1), of lib] cen by simp
  next
    case centroid
    then show ?thesis
      using flatten_centroid [OF assms(1), of lib] by simp
  next
    case wkt
    then show ?thesis
      using flatten_wkt [OF assms(1), of lib] by simp
  next
    case other
    then show ?thesis
      using flatten_other [OF other(2), of lib "frame_of fs"] by simp
  qed
qed

lemma columns_frame_of: "columns (frame_of fs) = columns (attrs fs) @ [''geometry'']"
  by (simp add: frame_of_def columns_def)

lemma flatten_distinct:
  assumes "wf_fs fs" and "flatten lib include_geometry coord_format (frame_of fs) = Inr df"
  shows "distinct (columns df)"
proof -
  have d: "distinct (columns (attrs fs))" and g: "''geometry'' \<notin> set (columns (attrs fs))"
    using assms(1) by (simp_all add: wf_fs_def columns_def)
  show ?thesis
    unfolding flatten_result(1) [OF assms]
    using d g
    by (simp add: point_frame_def centroid_frame_def wkt_frame_def columns_set_col
          distinct_add_name columns_frame_of)
qed

lemma flatten_columns:
  assumes "wf_fs fs" and "flatten lib include_geometry coord_format (frame_of fs) = Inr df"
    and "coord_format \<in> set choices"
  shows "columns df = predicted_columns include_geometry coord_format fs"
  unfolding flatten_result(1) [OF assms(1,2)]
  using assms(3)
  by (auto simp: predicted_columns_def point_frame_def centroid_frame_def wkt_frame_def
        columns_set_col choices_def Let_def)

lemma list_ex_transform [simp]:
  "list_ex is_point (map (map_option (transform_geom f)) gs) = list_ex is_point gs"
  by (induction gs) simp_all

lemma list_all_transform [simp]:
  "list_all (\<lambda>g. g = None \<or> is_point g) (map (map_option (transform_geom f)) gs)
     = list_all (\<lambda>g. g = None \<or> is_point g) gs"
  by (induction gs) simp_all

lemma reproject_shape:
  assumes "reproject_step lib fs = Inr fs'"
  shows "list_ex is_point (geoms fs') = list_ex is_point (geoms fs)"
    and "list_all (\<lambda>g. g = None \<or> is_point g) (geoms fs')
           = list_all (\<lambda>g. g = None \<or> is_point g) (geoms fs)"
    and "n_features fs' = n_features fs"
  using assms by (auto simp: reproject_step_eq n_features_def split: if_splits)

lemma flattenable_reproject:
  "reproject_step lib fs = Inr fs' \<Longrightarrow>
     flattenable include_geometry coord_format fs'
       = flattenable include_geometry coord_format fs"
  by (simp add: flattenable_def reproject_shape)

lemma predicted_columns_reproject:
  assumes "reproject_step lib fs = Inr fs'"
  shows "predicted_columns include_geometry coord_format fs'
           = predicted_columns include_geometry coord_format fs"
  unfolding predicted_columns_def reproject_shape(1) [OF assms] reproject_step_facts(1) [OF assms]
  by (rule refl)

lemma columns_cleanup: "distinct (columns df) \<Longrightarrow> columns (cleanup lib df) = columns df"
  by (simp add: cleanup_eq)

lemma output_table_D:
  assumes "wf_fs fs" and "output_table lib include_geometry coord_format fs = Inr df"
  shows "\<exists>fs' df0. reproject_step lib fs = Inr fs' \<and> wf_fs fs'
           \<and> flatten lib include_geometry coord_format (frame_of fs') = Inr df0
           \<and> distinct (columns df0)
           \<and> df = cleanup lib df0 \<and> columns df = columns df0"
proof -
  obtain fs' where r: "reproject_step lib fs = Inr fs'"
    by (simp add: reproject_step_eq)
  have wf': "wf_fs fs'"
    using reproject_step_facts(5) [OF r] assms(1) by simp
  from assms(2) r obtain df0 where
    f: "flatten lib include_geometry coord_format (frame_of fs') = Inr df0"
    and df: "df = cleanup lib df0"
    by (auto simp: output_table_def split: sum.splits)
  have d: "distinct (columns df0)"
    by (rule flatten_distinct [OF wf' f])
  show ?thesis
    using r wf' f d df by (auto simp: columns_cleanup)
qed

lemma output_table_columns:
  assumes "wf_fs fs" and "output_table lib include_geometry coord_format fs = Inr df"
  shows "flattenable include_geometry coord_format fs"
    and "coord_format \<in> set choices \<Longrightarrow>
           columns df = predicted_columns include_geometry coord_format fs"
proof -
  from output_table_D [OF assms] obtain fs' df0 where
    r: "reproject_step lib fs = Inr fs'" and wf': "wf_fs fs'"
    and f: "flatten lib include_geometry coord_format (frame_of fs') = Inr df0"
    and c: "columns df = columns df0"
    by blast
  show "flattenable include_geometry coord_format fs"
    using flatten_result(2) [OF wf' f] flattenable_reproject [OF r] by simp
  show "columns df = predicted_columns include_geometry coord_format fs"
    if "coord_format \<in> set choices"
    using flatten_columns [OF wf' f that] predicted_columns_reproject [OF r] c by simp
qed

lemma output_table_total:
  assumes "wf_fs fs" and "flattenable include_geometry coord_format fs"
  shows "\<exists>df. output_table lib include_geometry coord_format fs = Inr df"
proof -
  obtain fs' where r: "reproject_step lib fs = Inr fs'"
    by (simp add: reproject_step_eq)
  have wf': "wf_fs fs'"
    using reproject_step_facts(5) [OF r] assms(1) by simp
  have "flattenable include_geometry coord_format fs'"
    using flattenable_reproject [OF r] assms(2) by simp
  from flatten_total [OF wf' this, of lib] r show ?thesis
    by (auto simp: output_table_def)
qed

lemma header_to_csv [simp]: "header (to_csv lib n df) = columns df"
  by (simp add: to_csv_def)

lemma length_rows_to_csv [simp]: "length (rows (to_csv lib n df)) = n"
  by (simp add: to_csv_def)

lemma convert_missing:
  "files w shp_path = None \<Longrightarrow>
     convert_shapefile_to_csv lib shp_path csv_path include_geometry coord_format w
       = (Inl (FileNotFoundError (''Shapefile not found: '' @ shp_path)), w)"
  by (simp add: convert_shapefile_to_csv_def)

lemma convert_ok:
  assumes "files w shp_path = Some (Dataset fs)"
    and "destination lib shp_path csv_path = Inr p"
    and "output_table lib include_geometry coord_format fs = Inr df"
    and "write_error w p = None"
  shows "\<exists>w'. convert_shapefile_to_csv lib shp_path csv_path include_geometry coord_format w
                 = (Inr p, w')
           \<and> files w' = (files w)(p \<mapsto> CsvFile (to_csv lib (n_features fs) df))
           \<and> write_error w' = write_error w
           \<and> stdout w' = stdout w
               @ [Loaded (n_features fs),
                  GeomTypes (unique (map (\<lambda>g. geom_type_cell (geom_cell g)) (geoms fs))),
                  CrsLine (crs fs),
                  Text (''Successfully saved CSV to: '' @ p),
                  CsvShape (n_features fs) (length df),
                  ColumnList (columns df)]"
  using assms by (simp add: convert_shapefile_to_csv_def print_def Let_def)

lemma convert_Inr_D:
  assumes "files w shp_path = Some (Dataset fs)"
    and "convert_shapefile_to_csv lib shp_path csv_path include_geometry coord_format w
           = (Inr p, w')"
  shows "destination lib shp_path csv_path = Inr p \<and> write_error w p = None
         \<and> (\<exists>df. output_table lib include_geometry coord_format fs = Inr df
                \<and> files w' = (files w)(p \<mapsto> CsvFile (to_csv lib (n_features fs) df)))"
  using assms
  by (auto simp: convert_shapefile_to_csv_def print_def Let_def
        split: sum.splits option.splits)

lemma scanned_cases:
  "scanned lib c =
     (if dtype c = DObject \<and> (\<exists>v vs. cells c = v # vs \<and> has_geom_type v)
      then \<lparr>dtype = DObject, cells = map (\<lambda>v. CStr (py_str lib v)) (cells c)\<rparr>
      else c)"
  by (auto simp: scanned_def needs_str_def astype_str_def object_column_def split: list.splits)

lemma csv_column_to_csv:
  assumes "j < length df" and "length (cells (snd (df ! j))) = n"
  shows "csv_column (to_csv lib n df) j = map (csv_field lib) (cells (snd (df ! j)))"
proof -
  have "csv_column (to_csv lib n df) j
          = map (\<lambda>i. csv_field lib (cells (snd (df ! j)) ! i)) [0..<n]"
    using assms(1) by (simp add: csv_column_def to_csv_def case_prod_beta comp_def)
  also have "\<dots> = map (csv_field lib) (map (\<lambda>i. cells (snd (df ! j)) ! i) [0..<n])"
    by (simp add: comp_def)
  also have "\<dots> = map (csv_field lib) (cells (snd (df ! j)))"
    unfolding assms(2) [symmetric] by (simp only: map_nth)
  finally show ?thesis .
qed

lemma csv_field_geom_cell [simp]: "csv_field lib (geom_cell g) = geom_field lib g"
  by (simp add: geom_cell_def geom_field_def split: option.splits)

lemma scanned_geometry_column [simp]:
  "scanned lib \<lparr>dtype = DGeometry, cells = cs\<rparr> = \<lparr>dtype = DGeometry, cells = cs\<rparr>"
  by (simp add: scanned_def needs_str_def)

lemma distinct_frame_of: "wf_fs fs \<Longrightarrow> distinct (columns (frame_of fs))"
  unfolding columns_frame_of by (simp add: wf_fs_def columns_def)

lemma all_empty_set_col:
  "list_all (\<lambda>(n, c). cells c = []) df \<Longrightarrow> cells col = [] \<Longrightarrow>
     list_all (\<lambda>(n, c). cells c = []) (set_col m col df)"
  by (auto simp: set_col_def list_all_iff split: if_splits)

lemma destination_D:
  "destination lib shp_path csv_path = Inr p \<Longrightarrow>
     (csv_path = None \<longrightarrow> with_suffix_csv lib shp_path = Inr p)
     \<and> (\<forall>q. csv_path = Some q \<longrightarrow> p = q)"
  by (auto simp: destination_def split: option.splits sum.splits)

lemmas world_defs =
  convert_shapefile_to_csv_def main_def read_csv_def read_header_def blank_line_def
  blank_field_def destination_def print_def to_csv_def head_def n_features_def disk_def
  choices_def

subsection \<open>Reading a written CSV back\<close>

lemma not_blank_two: "2 \<le> length r \<Longrightarrow> \<not> blank_line r"
  by (cases r) (auto simp: blank_line_def split: list.splits)

lemma read_header_id:
  assumes "[] \<notin> set names" and "distinct names"
  shows "read_header lib names = names"
proof -
  have "map (\<lambda>(i, n). if n = [] then ''Unnamed: '' @ string_of_nat i else n)
            (enumerate 0 names)
          = map snd (enumerate 0 names)"
    using assms(1) by (intro map_cong) (auto simp: in_set_enumerate_eq, metis nth_mem)
  then show ?thesis
    using assms(2) by (simp add: read_header_def)
qed

lemma read_csv_written:
  assumes "files w p = Some (CsvFile t)"
    and "\<not> list_ex blank_line (header t # rows t)"
    and "[] \<notin> set (header t)" and "distinct (header t)"
  shows "read_csv lib w p = Inr t"
proof -
  have "filter (\<lambda>r. \<not> blank_line r) (header t # rows t) = header t # rows t"
    using assms(2) by (simp add: list_ex_iff filter_id_conv)
  then show ?thesis
    using assms(1,3,4) by (simp add: read_csv_def read_header_id)
qed

lemma read_csv_succeeds_iff:
  assumes "files w p = Some (CsvFile t)"
  shows "(\<exists>u. read_csv lib w p = Inr u) \<longleftrightarrow> list_ex (\<lambda>r. \<not> blank_line r) (header t # rows t)"
    and "\<not> list_ex (\<lambda>r. \<not> blank_line r) (header t # rows t) \<Longrightarrow>
           read_csv lib w p = Inl (EmptyDataError ''No columns to parse from file'')"
proof -
  have e: "filter (\<lambda>r. \<not> blank_line r) (header t # rows t) = []
             \<longleftrightarrow> \<not> list_ex (\<lambda>r. \<not> blank_line r) (header t # rows t)"
    by (simp only: filter_empty_conv list_ex_iff) blast
  show "(\<exists>u. read_csv lib w p = Inr u) \<longleftrightarrow> list_ex (\<lambda>r. \<not> blank_line r) (header t # rows t)"
    using assms e
    by (cases "filter (\<lambda>r. \<not> blank_line r) (header t # rows t)")
       (simp_all add: read_csv_def)
  show "read_csv lib w p = Inl (EmptyDataError ''No columns to parse from file'')"
    if "\<not> list_ex (\<lambda>r. \<not> blank_line r) (header t # rows t)"
    using assms e that by (simp add: read_csv_def)
qed

lemma length_row_to_csv: "r \<in> set (rows (to_csv lib n df)) \<Longrightarrow> length r = length df"
  by (auto simp: to_csv_def)

lemma to_csv_no_blank:
  "2 \<le> length df \<Longrightarrow>
     \<not> list_ex blank_line (header (to_csv lib n df) # rows (to_csv lib n df))"
  by (auto simp: list_ex_iff not_blank_two length_row_to_csv columns_def)

lemma read_csv_print: "read_csv lib (print ls w) p = read_csv lib w p"
  by (simp add: read_csv_def print_def)

section \<open>The properties\<close>

subsection \<open>C1: point features in \<^verbatim>\<open>separate\<close> mode\<close>

text \<open>
  C1, as amended. For every feature set with at least one feature whose features all
  have Point geometry, \<^verbatim>\<open>convert\<close> with \<^verbatim>\<open>coord_format = 'separate'\<close> and
  \<^verbatim>\<open>include_geometry = True\<close> hands the writer a table whose \<^verbatim>\<open>longitude\<close> and \<^verbatim>\<open>latitude\<close>
  columns hold the native x and y of each feature (of the geometries as they stand
  after the reprojection step, which are the geometries of the file when no reprojection
  is needed), the geometry column is dropped, and no \<^verbatim>\<open>geometry_type\<close> column is added:
  the table has one only if the feature set has an attribute of that name.
\<close>

theorem separate_points_columns:
  assumes "wf_fs fs" and "geoms fs \<noteq> []" and "list_all is_point (geoms fs)"
  shows "\<exists>fs' df.
           reproject_step lib fs = Inr fs'
         \<and> (\<not> needs_reprojection fs \<longrightarrow> fs' = fs)
         \<and> output_table lib True ''separate'' fs = Inr df
         \<and> map_of df ''longitude'' = Some (float_column (map native_x (geoms fs')))
         \<and> map_of df ''latitude'' = Some (float_column (map native_y (geoms fs')))
         \<and> ''geometry'' \<notin> set (columns df)
         \<and> columns df = add_name ''latitude'' (add_name ''longitude'' (columns (attrs fs)))
         \<and> (''geometry_type'' \<in> set (columns df)
              \<longleftrightarrow> ''geometry_type'' \<in> set (columns (attrs fs)))"
proof -
  obtain fs' where r: "reproject_step lib fs = Inr fs'"
    by (simp add: reproject_step_eq)
  note f = reproject_step_facts [OF r]
  have wf': "wf_fs fs'"
    using f(5) assms(1) by simp
  have pts: "list_all is_point (geoms fs')"
    using list_all_map_eq [OF f(3)] assms(3) by simp
  have ne: "geoms fs' \<noteq> []"
    using f(2) assms(2) by auto
  have all: "list_all (\<lambda>g. g = None \<or> is_point g) (geoms fs')"
    using pts by (simp add: list_all_iff)
  have some: "\<exists>g \<in> set (geoms fs'). is_point g"
    using pts ne by (cases "geoms fs'") simp_all
  have fl: "flatten lib True ''separate'' (frame_of fs') = Inr (point_frame fs')"
    by (rule flatten_separate_points [OF wf' all some])
  have d: "distinct (columns (point_frame fs'))"
    using wf' by (simp add: point_frame_def columns_set_col distinct_add_name distinct_attrs)
  have out: "output_table lib True ''separate'' fs
               = Inr (map (\<lambda>(n, c). (n, scanned lib c)) (point_frame fs'))"
    by (rule output_table_eq [OF r fl d])
  have g: "''geometry'' \<notin> set (columns (attrs fs))"
    using assms(1) by (simp add: wf_fs_def columns_def)
  show ?thesis
    using r f(1,6) g
    by (simp add: out map_of_scanned point_frame_def map_of_set_col columns_set_col
          add_name_def)
qed

theorem separate_points_columns_witness:
  "wf_fs two_points \<and> geoms two_points \<noteq> [] \<and> list_all is_point (geoms two_points)
   \<and> (\<exists>fs' df.
           reproject_step example_lib two_points = Inr fs'
         \<and> output_table example_lib True ''separate'' two_points = Inr df
         \<and> map_of df ''longitude'' = Some (float_column (map native_x (geoms fs')))
         \<and> map_of df ''latitude'' = Some (float_column (map native_y (geoms fs')))
         \<and> ''geometry'' \<notin> set (columns df))
   \<and> output_table example_lib True ''separate'' two_points
         = Inr [(''name'', object_column [CStr ''a'', CStr ''b'']),
                (''longitude'', float_column [CFloat 1, CFloat 3]),
                (''latitude'', float_column [CFloat 2, CFloat 4])]"
proof -
  have h1: "wf_fs two_points"
    by (simp add: wf_fs_def two_points_def object_column_def)
  have h2: "geoms two_points \<noteq> []"
    by (simp add: two_points_def)
  have h3: "list_all is_point (geoms two_points)"
    by (simp add: two_points_def is_point_def)
  have t: "output_table example_lib True ''separate'' two_points
             = Inr [(''name'', object_column [CStr ''a'', CStr ''b'']),
                    (''longitude'', float_column [CFloat 1, CFloat 3]),
                    (''latitude'', float_column [CFloat 2, CFloat 4])]"
    by (simp add: frame_defs example_lib_def two_points_def)
  from separate_points_columns [OF h1 h2 h3, of example_lib] obtain fs' df where
    "reproject_step example_lib two_points = Inr fs'"
    "output_table example_lib True ''separate'' two_points = Inr df"
    "map_of df ''longitude'' = Some (float_column (map native_x (geoms fs')))"
    "map_of df ''latitude'' = Some (float_column (map native_y (geoms fs')))"
    "''geometry'' \<notin> set (columns df)"
    by blast
  then show ?thesis
    using h1 h2 h3 t by blast
qed

text \<open>
  The claim as stated fails on the feature set without features, all of whose features
  are points: no type name equals \<^verbatim>\<open>'Point'\<close>, the centroid branch runs, and the table
  has a \<^verbatim>\<open>geometry_type\<close> column.
\<close>

theorem separate_points_empty_counterexample:
  "wf_fs no_features \<and> list_all is_point (geoms no_features)
   \<and> output_table example_lib True ''separate'' no_features
         = Inr [(''name'', object_column []),
                (''longitude'', float_column []),
                (''latitude'', float_column []),
                (''geometry_type'', object_column [])]"
  by (simp add: frame_defs example_lib_def no_features_def wf_fs_def)

subsection \<open>C2: no point feature in \<^verbatim>\<open>separate\<close> mode\<close>

text \<open>
  C2. For every feature set none of whose geometries is a Point, \<^verbatim>\<open>convert\<close> with
  \<^verbatim>\<open>coord_format = 'separate'\<close> and \<^verbatim>\<open>include_geometry = True\<close> hands the writer a table whose
  \<^verbatim>\<open>longitude\<close> and \<^verbatim>\<open>latitude\<close> columns hold the coordinates of the centroid of each geometry
  (of the geometries as they stand after the reprojection step; NaN for a missing
  geometry or an empty centroid), whose \<^verbatim>\<open>geometry_type\<close> column holds the type name of
  each feature's geometry, and which has no geometry column. The three columns stand
  after the attribute columns unless an attribute has the name already.
\<close>

theorem separate_centroid_columns:
  assumes "wf_fs fs" and "list_all (\<lambda>g. \<not> is_point g) (geoms fs)"
  shows "\<exists>fs' df.
           reproject_step lib fs = Inr fs'
         \<and> (\<not> needs_reprojection fs \<longrightarrow> fs' = fs)
         \<and> output_table lib True ''separate'' fs = Inr df
         \<and> map_of df ''longitude'' = Some (float_column (map (centroid_x lib) (geoms fs')))
         \<and> map_of df ''latitude'' = Some (float_column (map (centroid_y lib) (geoms fs')))
         \<and> map_of df ''geometry_type'' = Some (object_column (map type_name (geoms fs)))
         \<and> ''geometry'' \<notin> set (columns df)
         \<and> columns df = add_name ''geometry_type''
               (add_name ''latitude'' (add_name ''longitude'' (columns (attrs fs))))"
proof -
  obtain fs' where r: "reproject_step lib fs = Inr fs'"
    by (simp add: reproject_step_eq)
  note f = reproject_step_facts [OF r]
  have wf': "wf_fs fs'"
    using f(5) assms(1) by simp
  have "map (\<lambda>g. \<not> is_point g) (geoms fs') = map (\<lambda>g. \<not> is_point g) (geoms fs)"
    using arg_cong [OF f(3), of "map Not"] by (simp add: comp_def)
  then have "list_all (\<lambda>g. \<not> is_point g) (geoms fs')"
    using list_all_map_eq assms(2) by blast
  then have none: "\<not> (\<exists>g \<in> set (geoms fs'). is_point g)"
    by (simp add: list_all_iff)
  have fl: "flatten lib True ''separate'' (frame_of fs') = Inr (centroid_frame lib fs')"
    by (rule flatten_separate_no_point [OF wf' none])
  have d: "distinct (columns (centroid_frame lib fs'))"
    using wf' by (simp add: centroid_frame_def columns_set_col distinct_add_name distinct_attrs)
  have out: "output_table lib True ''separate'' fs
               = Inr (map (\<lambda>(n, c). (n, scanned lib c)) (centroid_frame lib fs'))"
    by (rule output_table_eq [OF r fl d])
  have g: "''geometry'' \<notin> set (columns (attrs fs))"
    using assms(1) by (simp add: wf_fs_def columns_def)
  show ?thesis
    using r f(1,4,6) g
    by (simp add: out map_of_scanned centroid_frame_def map_of_set_col columns_set_col
          add_name_def)
qed

theorem separate_centroid_columns_witness:
  "wf_fs one_line \<and> list_all (\<lambda>g. \<not> is_point g) (geoms one_line)
   \<and> (\<exists>fs' df.
           reproject_step example_lib one_line = Inr fs'
         \<and> output_table example_lib True ''separate'' one_line = Inr df
         \<and> map_of df ''longitude''
               = Some (float_column (map (centroid_x example_lib) (geoms fs')))
         \<and> map_of df ''latitude''
               = Some (float_column (map (centroid_y example_lib) (geoms fs')))
         \<and> map_of df ''geometry_type''
               = Some (object_column (map type_name (geoms one_line)))
         \<and> ''geometry'' \<notin> set (columns df))
   \<and> output_table example_lib True ''separate'' one_line
         = Inr [(''name'', object_column [CStr ''a'']),
                (''longitude'', float_column [CFloat 1]),
                (''latitude'', float_column [CFloat 2]),
                (''geometry_type'', object_column [CStr ''LineString''])]"
proof -
  have h1: "wf_fs one_line"
    by (simp add: wf_fs_def one_line_def object_column_def)
  have h2: "list_all (\<lambda>g. \<not> is_point g) (geoms one_line)"
    by (simp add: one_line_def is_point_def)
  have t: "output_table example_lib True ''separate'' one_line
             = Inr [(''name'', object_column [CStr ''a'']),
                    (''longitude'', float_column [CFloat 1]),
                    (''latitude'', float_column [CFloat 2]),
                    (''geometry_type'', object_column [CStr ''LineString''])]"
    by (simp add: frame_defs example_lib_def one_line_def)
  from separate_centroid_columns [OF h1 h2, of example_lib] obtain fs' df where
    "reproject_step example_lib one_line = Inr fs'"
    "output_table example_lib True ''separate'' one_line = Inr df"
    "map_of df ''longitude'' = Some (float_column (map (centroid_x example_lib) (geoms fs')))"
    "map_of df ''latitude'' = Some (float_column (map (centroid_y example_lib) (geoms fs')))"
    "map_of df ''geometry_type'' = Some (object_column (map type_name (geoms one_line)))"
    "''geometry'' \<notin> set (columns df)"
    by blast
  then show ?thesis
    using h1 h2 t by blast
qed

subsection \<open>C3: \<^verbatim>\<open>wkt\<close> mode\<close>

text \<open>
  C3. For every feature set, \<^verbatim>\<open>convert\<close> with \<^verbatim>\<open>coord_format = 'wkt'\<close> and
  \<^verbatim>\<open>include_geometry = True\<close> hands the writer a table with a \<^verbatim>\<open>geometry_wkt\<close> column holding
  the Well-Known Text of each feature's geometry (as it stands after the reprojection
  step) and a \<^verbatim>\<open>geometry_type\<close> column holding its type name, and without the geometry
  column. The two columns are appended after the attribute columns when no attribute has
  one of the two names; an attribute of that name is overwritten where it stands.
\<close>

theorem wkt_columns_added:
  assumes "wf_fs fs"
  shows "\<exists>fs' df.
           reproject_step lib fs = Inr fs'
         \<and> (\<not> needs_reprojection fs \<longrightarrow> fs' = fs)
         \<and> output_table lib True ''wkt'' fs = Inr df
         \<and> map_of df ''geometry_wkt'' = Some (object_column (map (wkt_text lib) (geoms fs')))
         \<and> map_of df ''geometry_type'' = Some (object_column (map type_name (geoms fs)))
         \<and> ''geometry'' \<notin> set (columns df)
         \<and> columns df = add_name ''geometry_type''
               (add_name ''geometry_wkt'' (columns (attrs fs)))
         \<and> (''geometry_wkt'' \<notin> set (columns (attrs fs))
              \<and> ''geometry_type'' \<notin> set (columns (attrs fs))
              \<longrightarrow> columns df = columns (attrs fs) @ [''geometry_wkt'', ''geometry_type''])"
proof -
  obtain fs' where r: "reproject_step lib fs = Inr fs'"
    by (simp add: reproject_step_eq)
  note f = reproject_step_facts [OF r]
  have wf': "wf_fs fs'"
    using f(5) assms(1) by simp
  have fl: "flatten lib True ''wkt'' (frame_of fs') = Inr (wkt_frame lib fs')"
    by (rule flatten_wkt [OF wf'])
  have d: "distinct (columns (wkt_frame lib fs'))"
    using wf' by (simp add: wkt_frame_def columns_set_col distinct_add_name distinct_attrs)
  have out: "output_table lib True ''wkt'' fs
               = Inr (map (\<lambda>(n, c). (n, scanned lib c)) (wkt_frame lib fs'))"
    by (rule output_table_eq [OF r fl d])
  have g: "''geometry'' \<notin> set (columns (attrs fs))"
    using assms(1) by (simp add: wf_fs_def columns_def)
  show ?thesis
    using r f(1,4,6) g
    by (simp add: out map_of_scanned wkt_frame_def map_of_set_col columns_set_col
          add_name_def)
qed

theorem wkt_columns_added_witness:
  "wf_fs one_line
   \<and> (\<exists>fs' df.
           reproject_step example_lib one_line = Inr fs'
         \<and> output_table example_lib True ''wkt'' one_line = Inr df
         \<and> map_of df ''geometry_wkt''
               = Some (object_column (map (wkt_text example_lib) (geoms fs')))
         \<and> map_of df ''geometry_type''
               = Some (object_column (map type_name (geoms one_line)))
         \<and> ''geometry'' \<notin> set (columns df)
         \<and> columns df = columns (attrs one_line) @ [''geometry_wkt'', ''geometry_type''])
   \<and> output_table example_lib True ''wkt'' one_line
         = Inr [(''name'', object_column [CStr ''a'']),
                (''geometry_wkt'', object_column [CStr ''WKT LineString'']),
                (''geometry_type'', object_column [CStr ''LineString''])]"
proof -
  have h1: "wf_fs one_line"
    by (simp add: wf_fs_def one_line_def object_column_def)
  have h2: "''geometry_wkt'' \<notin> set (columns (attrs one_line))
            \<and> ''geometry_type'' \<notin> set (columns (attrs one_line))"
    by (simp add: one_line_def columns_def)
  have t: "output_table example_lib True ''wkt'' one_line
             = Inr [(''name'', object_column [CStr ''a'']),
                    (''geometry_wkt'', object_column [CStr ''WKT LineString'']),
                    (''geometry_type'', object_column [CStr ''LineString''])]"
    by (simp add: frame_defs example_lib_def one_line_def)
  from wkt_columns_added [OF h1, of example_lib] h2 obtain fs' df where
    "reproject_step example_lib one_line = Inr fs'"
    "output_table example_lib True ''wkt'' one_line = Inr df"
    "map_of df ''geometry_wkt'' = Some (object_column (map (wkt_text example_lib) (geoms fs')))"
    "map_of df ''geometry_type'' = Some (object_column (map type_name (geoms one_line)))"
    "''geometry'' \<notin> set (columns df)"
    "columns df = columns (attrs one_line) @ [''geometry_wkt'', ''geometry_type'']"
    by blast
  then show ?thesis
    using h1 t by blast
qed

subsection \<open>C4: mode \<^verbatim>\<open>none\<close>, or no geometry wanted\<close>

text \<open>
  C4. For every feature set, \<^verbatim>\<open>convert\<close> with \<^verbatim>\<open>coord_format = 'none'\<close>, or with
  \<^verbatim>\<open>include_geometry = False\<close> whatever the \<^verbatim>\<open>coord_format\<close>, hands the writer a table whose
  columns are the attribute columns in their original order and nothing else: as many
  columns as attributes, the same names, no geometry column. (Each column is the
  attribute column as the clean-up scan leaves it.)
\<close>

theorem no_geometry_columns:
  assumes "wf_fs fs" and "coord_format = ''none'' \<or> \<not> include_geometry"
  shows "\<exists>df. output_table lib include_geometry coord_format fs = Inr df
           \<and> columns df = columns (attrs fs)
           \<and> length df = length (attrs fs)
           \<and> ''geometry'' \<notin> set (columns df)
           \<and> df = map (\<lambda>(n, c). (n, scanned lib c)) (attrs fs)"
proof -
  obtain fs' where r: "reproject_step lib fs = Inr fs'"
    by (simp add: reproject_step_eq)
  note f = reproject_step_facts [OF r]
  have wf': "wf_fs fs'"
    using f(5) assms(1) by simp
  have fl: "flatten lib include_geometry coord_format (frame_of fs') = Inr (attrs fs')"
    by (rule flatten_none [OF wf' assms(2)])
  have out: "output_table lib include_geometry coord_format fs
               = Inr (map (\<lambda>(n, c). (n, scanned lib c)) (attrs fs'))"
    by (rule output_table_eq [OF r fl distinct_attrs [OF wf']])
  have g: "''geometry'' \<notin> set (columns (attrs fs))"
    using assms(1) by (simp add: wf_fs_def columns_def)
  show ?thesis
    using f(1) g by (simp add: out)
qed

theorem no_geometry_columns_witness:
  "wf_fs two_points
   \<and> (\<exists>df. output_table example_lib True ''none'' two_points = Inr df
           \<and> columns df = columns (attrs two_points)
           \<and> length df = length (attrs two_points))
   \<and> (\<exists>df. output_table example_lib False ''wkt'' two_points = Inr df
           \<and> columns df = columns (attrs two_points)
           \<and> length df = length (attrs two_points))
   \<and> output_table example_lib True ''none'' two_points
         = Inr [(''name'', object_column [CStr ''a'', CStr ''b''])]
   \<and> output_table example_lib False ''wkt'' two_points
         = Inr [(''name'', object_column [CStr ''a'', CStr ''b''])]"
proof -
  have h1: "wf_fs two_points"
    by (simp add: wf_fs_def two_points_def object_column_def)
  have a: "\<exists>df. output_table example_lib True ''none'' two_points = Inr df
           \<and> columns df = columns (attrs two_points)
           \<and> length df = length (attrs two_points)"
    using no_geometry_columns [OF h1, of "''none''" True example_lib] by blast
  have b: "\<exists>df. output_table example_lib False ''wkt'' two_points = Inr df
           \<and> columns df = columns (attrs two_points)
           \<and> length df = length (attrs two_points)"
    using no_geometry_columns [OF h1, of "''wkt''" False example_lib] by blast
  have t1: "output_table example_lib True ''none'' two_points
         = Inr [(''name'', object_column [CStr ''a'', CStr ''b''])]"
    by (simp add: frame_defs example_lib_def two_points_def)
  have t2: "output_table example_lib False ''wkt'' two_points
         = Inr [(''name'', object_column [CStr ''a'', CStr ''b''])]"
    by (simp add: frame_defs example_lib_def two_points_def)
  show ?thesis
    using h1 a b t1 t2 by blast
qed

subsection \<open>C5: the reprojection decision\<close>

text \<open>
  C5. For a feature set read from the source, \<^verbatim>\<open>convert\<close> reprojects the geometries to
  EPSG:4326 exactly when the feature set declares a CRS whose \<^verbatim>\<open>to_epsg()\<close> is not 4326:
  the feature set \<open>fs'\<close> that goes on to the coordinate policy is then the one of the source
  with every geometry transformed from the declared CRS and with EPSG:4326 as its CRS.
  Without a CRS the step is skipped and raises nothing, and \<open>fs'\<close> is the feature set of
  the source; with a CRS that is EPSG:4326 already, \<open>fs'\<close> is the feature set of the source
  as well, so the geometries pass unchanged. The step never raises. All that \<^verbatim>\<open>convert\<close>
  does afterwards is done to \<open>fs'\<close>: the table handed to the writer is the policy and the
  scan applied to the frame of \<open>fs'\<close>, and the result of \<^verbatim>\<open>convert\<close>, that is the error
  raised or the path returned, the file written and the lines printed, is computed from
  that table.
\<close>

theorem reprojection_decision:
  assumes "files w shp_path = Some (Dataset fs)"
  shows "\<exists>fs'.
           reproject_step lib fs = Inr fs'
         \<and> (needs_reprojection fs \<longleftrightarrow> (\<exists>c. crs fs = Some c \<and> to_epsg c \<noteq> Some 4326))
         \<and> (\<forall>c. crs fs = Some c \<and> to_epsg c \<noteq> Some 4326 \<longrightarrow>
               fs' = fs\<lparr>crs := Some epsg_4326,
                        geoms := map (map_option (transform_geom (transform lib c)))
                                     (geoms fs)\<rparr>)
         \<and> (crs fs = None \<longrightarrow> fs' = fs)
         \<and> (\<forall>c. crs fs = Some c \<and> to_epsg c = Some 4326 \<longrightarrow> fs' = fs)
         \<and> output_table lib include_geometry coord_format fs
             = (case flatten lib include_geometry coord_format (frame_of fs') of
                  Inl e \<Rightarrow> Inl e
                | Inr df \<Rightarrow> Inr (cleanup lib df))
         \<and> convert_shapefile_to_csv lib shp_path csv_path include_geometry coord_format w
             = (let w1 = print [Loaded (n_features fs),
                                GeomTypes (unique (map (\<lambda>g. geom_type_cell (geom_cell g))
                                                       (geoms fs))),
                                CrsLine (crs fs)] w
                in case destination lib shp_path csv_path of
                     Inl e \<Rightarrow> (Inl e, w1)
                   | Inr p \<Rightarrow>
                      (case flatten lib include_geometry coord_format (frame_of fs') of
                         Inl e \<Rightarrow> (Inl e, w1)
                       | Inr df \<Rightarrow>
                          (case write_error w1 p of
                             Some m \<Rightarrow> (Inl (Exception (''Error saving CSV file: '' @ m)), w1)
                           | None \<Rightarrow>
                              (Inr p,
                               print [Text (''Successfully saved CSV to: '' @ p),
                                      CsvShape (n_features fs) (length (cleanup lib df)),
                                      ColumnList (columns (cleanup lib df))]
                                 (w1\<lparr>files :=
                                       (files w1)(p \<mapsto>
                                          CsvFile (to_csv lib (n_features fs)
                                                     (cleanup lib df)))\<rparr>)))))"
proof -
  obtain fs' where r: "reproject_step lib fs = Inr fs'"
    by (simp add: reproject_step_eq)
  have n: "needs_reprojection fs \<longleftrightarrow> (\<exists>c. crs fs = Some c \<and> to_epsg c \<noteq> Some 4326)"
    by (simp add: needs_reprojection_def split: option.splits)
  have a: "\<forall>c. crs fs = Some c \<and> to_epsg c \<noteq> Some 4326 \<longrightarrow>
               fs' = fs\<lparr>crs := Some epsg_4326,
                        geoms := map (map_option (transform_geom (transform lib c)))
                                     (geoms fs)\<rparr>"
    using r by (auto simp: reproject_step_def to_crs_4326_def)
  have b: "crs fs = None \<longrightarrow> fs' = fs"
    using r by (auto simp: reproject_step_def)
  have c: "\<forall>c. crs fs = Some c \<and> to_epsg c = Some 4326 \<longrightarrow> fs' = fs"
    using r by (auto simp: reproject_step_def)
  have out: "output_table lib include_geometry coord_format fs
             = (case flatten lib include_geometry coord_format (frame_of fs') of
                  Inl e \<Rightarrow> Inl e
                | Inr df \<Rightarrow> Inr (cleanup lib df))"
    using r by (simp add: output_table_def)
  have conv: "convert_shapefile_to_csv lib shp_path csv_path include_geometry coord_format w
             = (let w1 = print [Loaded (n_features fs),
                                GeomTypes (unique (map (\<lambda>g. geom_type_cell (geom_cell g))
                                                       (geoms fs))),
                                CrsLine (crs fs)] w
                in case destination lib shp_path csv_path of
                     Inl e \<Rightarrow> (Inl e, w1)
                   | Inr p \<Rightarrow>
                      (case flatten lib include_geometry coord_format (frame_of fs') of
                         Inl e \<Rightarrow> (Inl e, w1)
                       | Inr df \<Rightarrow>
                          (case write_error w1 p of
                             Some m \<Rightarrow> (Inl (Exception (''Error saving CSV file: '' @ m)), w1)
                           | None \<Rightarrow>
                              (Inr p,
                               print [Text (''Successfully saved CSV to: '' @ p),
                                      CsvShape (n_features fs) (length (cleanup lib df)),
                                      ColumnList (columns (cleanup lib df))]
                                 (w1\<lparr>files :=
                                       (files w1)(p \<mapsto>
                                          CsvFile (to_csv lib (n_features fs)
                                                     (cleanup lib df)))\<rparr>)))))"
    using assms
    by (simp add: convert_shapefile_to_csv_def out Let_def split: sum.splits option.splits)
  show ?thesis
    by (intro exI [of _ fs'] conjI) (rule r n a b c out conv)+
qed

theorem reprojection_decision_witness:
  "files odd_disk ''web.shp'' = Some (Dataset web_point)
   \<and> crs web_point = Some (CRS (Some 3857) ''EPSG:3857'')
   \<and> reproject_step example_lib web_point
        = Inr \<lparr>crs = Some epsg_4326,
               attrs = [(''id'', \<lparr>dtype = DInt64, cells = [CInt 7]\<rparr>)],
               geoms = [Some (Point (Some (5, 10)))]\<rparr>
   \<and> output_table example_lib True ''separate'' web_point
        = Inr [(''id'', \<lparr>dtype = DInt64, cells = [CInt 7]\<rparr>),
               (''longitude'', float_column [CFloat 5]),
               (''latitude'', float_column [CFloat 10])]
   \<and> fst (convert_shapefile_to_csv example_lib ''web.shp'' None True ''separate'' odd_disk)
        = Inr ''web.csv''
   \<and> files (snd (convert_shapefile_to_csv example_lib ''web.shp'' None True ''separate''
                     odd_disk)) ''web.csv''
        = Some (CsvFile (to_csv example_lib 1
                  [(''id'', \<lparr>dtype = DInt64, cells = [CInt 7]\<rparr>),
                   (''longitude'', float_column [CFloat 5]),
                   (''latitude'', float_column [CFloat 10])]))
   \<and> files disk ''pts.shp'' = Some (Dataset two_points)
   \<and> crs two_points = Some (CRS (Some 4326) ''EPSG:4326'')
   \<and> reproject_step example_lib two_points = Inr two_points
   \<and> files disk ''lines.shp'' = Some (Dataset one_line)
   \<and> crs one_line = None
   \<and> reproject_step example_lib one_line = Inr one_line"
proof -
  have h: "files odd_disk ''web.shp'' = Some (Dataset web_point)"
    by (simp add: odd_disk_def)
  have cw: "crs web_point = Some (CRS (Some 3857) ''EPSG:3857'')"
    by (simp add: web_point_def)
  from reprojection_decision [OF h, of example_lib True "''separate''" None] obtain fs' where
    r: "reproject_step example_lib web_point = Inr fs'"
    and f: "\<forall>c. crs web_point = Some c \<and> to_epsg c \<noteq> Some 4326 \<longrightarrow>
               fs' = web_point\<lparr>crs := Some epsg_4326,
                        geoms := map (map_option (transform_geom (transform example_lib c)))
                                     (geoms web_point)\<rparr>"
    and out: "output_table example_lib True ''separate'' web_point
             = (case flatten example_lib True ''separate'' (frame_of fs') of
                  Inl e \<Rightarrow> Inl e
                | Inr df \<Rightarrow> Inr (cleanup example_lib df))"
    and conv: "convert_shapefile_to_csv example_lib ''web.shp'' None True ''separate'' odd_disk
             = (let w1 = print [Loaded (n_features web_point),
                                GeomTypes (unique (map (\<lambda>g. geom_type_cell (geom_cell g))
                                                       (geoms web_point))),
                                CrsLine (crs web_point)] odd_disk
                in case destination example_lib ''web.shp'' None of
                     Inl e \<Rightarrow> (Inl e, w1)
                   | Inr p \<Rightarrow>
                      (case flatten example_lib True ''separate'' (frame_of fs') of
                         Inl e \<Rightarrow> (Inl e, w1)
                       | Inr df \<Rightarrow>
                          (case write_error w1 p of
                             Some m \<Rightarrow> (Inl (Exception (''Error saving CSV file: '' @ m)), w1)
                           | None \<Rightarrow>
                              (Inr p,
                               print [Text (''Successfully saved CSV to: '' @ p),
                                      CsvShape (n_features web_point)
                                        (length (cleanup example_lib df)),
                                      ColumnList (columns (cleanup example_lib df))]
                                 (w1\<lparr>files :=
                                       (files w1)(p \<mapsto>
                                          CsvFile (to_csv example_lib (n_features web_point)
                                                     (cleanup example_lib df)))\<rparr>)))))"
    by blast
  have "fs' = web_point\<lparr>crs := Some epsg_4326,
                geoms := map (map_option (transform_geom
                           (transform example_lib (CRS (Some 3857) ''EPSG:3857''))))
                           (geoms web_point)\<rparr>"
    using f cw by simp
  then have fs': "fs' = \<lparr>crs = Some epsg_4326,
               attrs = [(''id'', \<lparr>dtype = DInt64, cells = [CInt 7]\<rparr>)],
               geoms = [Some (Point (Some (5, 10)))]\<rparr>"
    by (simp add: web_point_def example_lib_def)
  have fl: "flatten example_lib True ''separate'' (frame_of fs')
              = Inr [(''id'', \<lparr>dtype = DInt64, cells = [CInt 7]\<rparr>),
                     (''longitude'', float_column [CFloat 5]),
                     (''latitude'', float_column [CFloat 10])]"
    unfolding fs' by (simp add: frame_defs)
  have cl: "cleanup example_lib [(''id'', \<lparr>dtype = DInt64, cells = [CInt 7]\<rparr>),
                     (''longitude'', float_column [CFloat 5]),
                     (''latitude'', float_column [CFloat 10])]
              = [(''id'', \<lparr>dtype = DInt64, cells = [CInt 7]\<rparr>),
                     (''longitude'', float_column [CFloat 5]),
                     (''latitude'', float_column [CFloat 10])]"
    by (simp add: frame_defs)
  have 1: "reproject_step example_lib web_point
        = Inr \<lparr>crs = Some epsg_4326,
               attrs = [(''id'', \<lparr>dtype = DInt64, cells = [CInt 7]\<rparr>)],
               geoms = [Some (Point (Some (5, 10)))]\<rparr>"
    using r fs' by simp
  have 2: "output_table example_lib True ''separate'' web_point
        = Inr [(''id'', \<lparr>dtype = DInt64, cells = [CInt 7]\<rparr>),
               (''longitude'', float_column [CFloat 5]),
               (''latitude'', float_column [CFloat 10])]"
    by (simp add: out fl cl)
  have d: "destination example_lib ''web.shp'' None = Inr ''web.csv''"
    by (simp add: destination_def example_lib_def)
  have we: "\<And>ls. write_error (print ls odd_disk) ''web.csv'' = None"
    and we0: "write_error odd_disk ''web.csv'' = None"
    by (simp_all add: print_def odd_disk_def)
  have 3: "fst (convert_shapefile_to_csv example_lib ''web.shp'' None True ''separate'' odd_disk)
        = Inr ''web.csv''"
    by (subst conv) (simp add: fl cl d we Let_def)
  have nf: "n_features web_point = 1"
    by (simp add: n_features_def web_point_def)
  have 4: "files (snd (convert_shapefile_to_csv example_lib ''web.shp'' None True ''separate''
                     odd_disk)) ''web.csv''
        = Some (CsvFile (to_csv example_lib 1
                  [(''id'', \<lparr>dtype = DInt64, cells = [CInt 7]\<rparr>),
                   (''longitude'', float_column [CFloat 5]),
                   (''latitude'', float_column [CFloat 10])]))"
    by (subst conv) (simp add: fl cl d we we0 nf Let_def print_def)
  have h2: "files disk ''pts.shp'' = Some (Dataset two_points)"
    by (simp add: disk_def)
  have c2: "crs two_points = Some (CRS (Some 4326) ''EPSG:4326'')"
    by (simp add: two_points_def)
  have 5: "reproject_step example_lib two_points = Inr two_points"
    using reprojection_decision [OF h2, of example_lib True "''separate''" None] c2 by auto
  have h3: "files disk ''lines.shp'' = Some (Dataset one_line)"
    by (simp add: disk_def)
  have c3: "crs one_line = None"
    by (simp add: one_line_def)
  have 6: "reproject_step example_lib one_line = Inr one_line"
    using reprojection_decision [OF h3, of example_lib True "''separate''" None] c3 by auto
  show ?thesis
    by (intro conjI) (rule h cw 1 2 3 4 h2 c2 5 h3 c3 6)+
qed

subsection \<open>C6: a missing source, and the exit code\<close>

text \<open>
  C6, as amended. For a source path that is no existing file, \<^verbatim>\<open>convert\<close> raises
  FileNotFoundError and leaves the world as it was: no file is created and nothing is
  printed. The command line catches it, prints the line
  \<^verbatim>\<open>Error: Shapefile not found: <path>\<close> and exits with code 1, the files untouched. Every
  exception of the conversion ends in an \<^verbatim>\<open>Error:\<close> line and exit code 1. When the
  conversion returns, the command line prints the completion message and the output path
  and reads the CSV back for the preview: if the CSV has a line that the reader does not
  take for blank, the read succeeds, the first five rows are printed and the exit code is
  0; if every line of the CSV is blank, the read raises EmptyDataError, and the command
  line prints \<^verbatim>\<open>Error: No columns to parse from file\<close> after the completion message and
  exits with code 1. So the exit code is 0 exactly when the conversion returns and the CSV
  it wrote can be read back.
\<close>

theorem missing_source_and_exit_code:
  "(files w shp_path = None \<longrightarrow>
      convert_shapefile_to_csv lib shp_path csv_path include_geometry coord_format w
        = (Inl (FileNotFoundError (''Shapefile not found: '' @ shp_path)), w))
   \<and> (files w (shapefile a) = None \<and> coord_format_arg a \<in> set choices \<longrightarrow>
        main lib a w = (print [Text (''Error: Shapefile not found: '' @ shapefile a)] w, 1)
        \<and> files (fst (main lib a w)) = files w)
   \<and> (\<forall>e w1.
        coord_format_arg a \<in> set choices
        \<and> convert_shapefile_to_csv lib (shapefile a) (output_arg a) (\<not> no_geometry a)
              (coord_format_arg a) w = (Inl e, w1) \<longrightarrow>
        main lib a w = (print [Text (''Error: '' @ err_str e)] w1, 1))
   \<and> (\<forall>p w1 t.
        coord_format_arg a \<in> set choices
        \<and> convert_shapefile_to_csv lib (shapefile a) (output_arg a) (\<not> no_geometry a)
              (coord_format_arg a) w = (Inr p, w1)
        \<and> files w1 p = Some (CsvFile t) \<longrightarrow>
        (list_ex (\<lambda>r. \<not> blank_line r) (header t # rows t) \<longrightarrow>
           (\<exists>u. read_csv lib w1 p = Inr u
               \<and> main lib a w
                   = (print [Text [], Text ''Preview of first 5 rows:'', Preview (head u)]
                        (print [Text [], Text ''Conversion completed successfully!'',
                                Text (''Output file: '' @ p)] w1), 0)
               \<and> rows (head u) = take 5 (rows u) \<and> header (head u) = header u))
        \<and> (\<not> list_ex (\<lambda>r. \<not> blank_line r) (header t # rows t) \<longrightarrow>
             main lib a w
               = (print [Text ''Error: No columns to parse from file'']
                    (print [Text [], Text ''Conversion completed successfully!'',
                            Text (''Output file: '' @ p)] w1), 1)))
   \<and> (snd (main lib a w) = 0 \<longleftrightarrow>
        coord_format_arg a \<in> set choices
        \<and> (\<exists>p w1 u.
              convert_shapefile_to_csv lib (shapefile a) (output_arg a) (\<not> no_geometry a)
                (coord_format_arg a) w = (Inr p, w1)
            \<and> read_csv lib w1 p = Inr u))"
proof (intro conjI allI impI)
  show "convert_shapefile_to_csv lib shp_path csv_path include_geometry coord_format w
        = (Inl (FileNotFoundError (''Shapefile not found: '' @ shp_path)), w)"
    if "files w shp_path = None"
    using that by (simp add: convert_missing)
next
  assume "files w (shapefile a) = None \<and> coord_format_arg a \<in> set choices"
  then show "main lib a w = (print [Text (''Error: Shapefile not found: '' @ shapefile a)] w, 1)"
    and "files (fst (main lib a w)) = files w"
    by (simp_all add: main_def convert_missing print_def)
next
  fix e w1
  assume "coord_format_arg a \<in> set choices
        \<and> convert_shapefile_to_csv lib (shapefile a) (output_arg a) (\<not> no_geometry a)
              (coord_format_arg a) w = (Inl e, w1)"
  then show "main lib a w = (print [Text (''Error: '' @ err_str e)] w1, 1)"
    by (simp add: main_def)
next
  fix p w1 t
  assume h: "coord_format_arg a \<in> set choices
        \<and> convert_shapefile_to_csv lib (shapefile a) (output_arg a) (\<not> no_geometry a)
              (coord_format_arg a) w = (Inr p, w1)
        \<and> files w1 p = Some (CsvFile t)"
  then have f: "files w1 p = Some (CsvFile t)"
    by simp
  show "\<exists>u. read_csv lib w1 p = Inr u
               \<and> main lib a w
                   = (print [Text [], Text ''Preview of first 5 rows:'', Preview (head u)]
                        (print [Text [], Text ''Conversion completed successfully!'',
                                Text (''Output file: '' @ p)] w1), 0)
               \<and> rows (head u) = take 5 (rows u) \<and> header (head u) = header u"
    if "list_ex (\<lambda>r. \<not> blank_line r) (header t # rows t)"
  proof -
    from read_csv_succeeds_iff(1) [OF f, of lib] that obtain u where
      u: "read_csv lib w1 p = Inr u"
      by blast
    show ?thesis
      using h u by (intro exI [of _ u]) (simp add: main_def Let_def head_def read_csv_print)
  qed
  show "main lib a w
               = (print [Text ''Error: No columns to parse from file'']
                    (print [Text [], Text ''Conversion completed successfully!'',
                            Text (''Output file: '' @ p)] w1), 1)"
    if "\<not> list_ex (\<lambda>r. \<not> blank_line r) (header t # rows t)"
    using h read_csv_succeeds_iff(2) [OF f that, of lib]
    by (simp add: main_def Let_def read_csv_print)
next
  show "snd (main lib a w) = 0 \<longleftrightarrow>
        coord_format_arg a \<in> set choices
        \<and> (\<exists>p w1 u.
              convert_shapefile_to_csv lib (shapefile a) (output_arg a) (\<not> no_geometry a)
                (coord_format_arg a) w = (Inr p, w1)
            \<and> read_csv lib w1 p = Inr u)"
  proof (cases "coord_format_arg a \<in> set choices")
    case False
    then show ?thesis
      by (simp add: main_def)
  next
    case True
    obtain r w1 where c: "convert_shapefile_to_csv lib (shapefile a) (output_arg a)
        (\<not> no_geometry a) (coord_format_arg a) w = (r, w1)"
      by (cases "convert_shapefile_to_csv lib (shapefile a) (output_arg a)
        (\<not> no_geometry a) (coord_format_arg a) w") blast
    show ?thesis
    proof (cases r)
      case (Inl e)
      with True c show ?thesis
        by (simp add: main_def)
    next
      case (Inr p)
      with True c show ?thesis
        by (cases "read_csv lib w1 p") (simp_all add: main_def Let_def read_csv_print)
    qed
  qed
qed

theorem missing_source_and_exit_code_witness:
  "files disk ''nope.shp'' = None
   \<and> convert_shapefile_to_csv example_lib ''nope.shp'' None True ''separate'' disk
        = (Inl (FileNotFoundError ''Shapefile not found: nope.shp''), disk)
   \<and> main example_lib missing_args disk
        = (print [Text ''Error: Shapefile not found: nope.shp''] disk, 1)
   \<and> files (fst (main example_lib missing_args disk)) = files disk
   \<and> snd (main example_lib points_args disk) = 0
   \<and> stdout (fst (main example_lib points_args disk))
        = [Loaded 2, GeomTypes [CStr ''Point''],
           CrsLine (Some (CRS (Some 4326) ''EPSG:4326'')),
           Text ''Successfully saved CSV to: pts.csv'', CsvShape 2 3,
           ColumnList [''name'', ''longitude'', ''latitude''],
           Text [], Text ''Conversion completed successfully!'',
           Text ''Output file: pts.csv'',
           Text [], Text ''Preview of first 5 rows:'',
           Preview \<lparr>header = [''name'', ''longitude'', ''latitude''],
                    rows = [[''a'', ''F'', ''F''], [''b'', ''F'', ''F'']]\<rparr>]"
proof -
  note main_facts = missing_source_and_exit_code
  have m: "files disk ''nope.shp'' = None"
    by (simp add: disk_def)
  have a: "files disk (shapefile missing_args) = None
           \<and> coord_format_arg missing_args \<in> set choices"
    by (simp add: disk_def missing_args_def choices_def)
  have 1: "convert_shapefile_to_csv example_lib ''nope.shp'' None True ''separate'' disk
             = (Inl (FileNotFoundError ''Shapefile not found: nope.shp''), disk)"
    using main_facts [of disk "''nope.shp''" example_lib None True "''separate''" missing_args] m
    by simp
  have "main example_lib missing_args disk
             = (print [Text (''Error: Shapefile not found: '' @ shapefile missing_args)] disk, 1)
           \<and> files (fst (main example_lib missing_args disk)) = files disk"
    using main_facts [of disk "''nope.shp''" example_lib None True "''separate''" missing_args] a
    by blast
  moreover have "shapefile missing_args = ''nope.shp''"
    by (simp add: missing_args_def)
  ultimately have 2: "main example_lib missing_args disk
             = (print [Text ''Error: Shapefile not found: nope.shp''] disk, 1)
           \<and> files (fst (main example_lib missing_args disk)) = files disk"
    by (simp add: print_def)
  let ?c = "convert_shapefile_to_csv example_lib (shapefile points_args)
              (output_arg points_args) (\<not> no_geometry points_args)
              (coord_format_arg points_args) disk"
  let ?t = "\<lparr>header = [''name'', ''longitude'', ''latitude''],
             rows = [[''a'', ''F'', ''F''], [''b'', ''F'', ''F'']]\<rparr>"
  have c: "?c = (Inr ''pts.csv'', snd ?c)"
    by (simp add: world_defs frame_defs example_lib_def two_points_def points_args_def)
  have f: "files (snd ?c) ''pts.csv'' = Some (CsvFile ?t)"
    by (simp add: world_defs frame_defs example_lib_def two_points_def points_args_def)
  have nb: "list_ex (\<lambda>r. \<not> blank_line r) (header ?t # rows ?t)"
    by (simp add: blank_line_def)
  have r: "read_csv example_lib (snd ?c) ''pts.csv'' = Inr ?t"
    by (simp add: world_defs frame_defs example_lib_def two_points_def points_args_def)
  have ch: "coord_format_arg points_args \<in> set choices"
    by (simp add: points_args_def choices_def)
  from main_facts [of disk "''nope.shp''" example_lib None True "''separate''" points_args]
  have "coord_format_arg points_args \<in> set choices \<and> ?c = (Inr ''pts.csv'', snd ?c)
          \<and> files (snd ?c) ''pts.csv'' = Some (CsvFile ?t) \<longrightarrow>
        (list_ex (\<lambda>r. \<not> blank_line r) (header ?t # rows ?t) \<longrightarrow>
           (\<exists>u. read_csv example_lib (snd ?c) ''pts.csv'' = Inr u
               \<and> main example_lib points_args disk
                   = (print [Text [], Text ''Preview of first 5 rows:'', Preview (head u)]
                        (print [Text [], Text ''Conversion completed successfully!'',
                                Text (''Output file: '' @ ''pts.csv'')] (snd ?c)), 0)
               \<and> rows (head u) = take 5 (rows u) \<and> header (head u) = header u))"
    by blast
  with ch c f nb obtain u where u: "read_csv example_lib (snd ?c) ''pts.csv'' = Inr u"
    and mu: "main example_lib points_args disk
                   = (print [Text [], Text ''Preview of first 5 rows:'', Preview (head u)]
                        (print [Text [], Text ''Conversion completed successfully!'',
                                Text (''Output file: '' @ ''pts.csv'')] (snd ?c)), 0)"
    by blast
  from u r have "u = ?t"
    by simp
  with mu have 3: "main example_lib points_args disk
             = (print [Text [], Text ''Preview of first 5 rows:'', Preview (head ?t)]
                  (print [Text [], Text ''Conversion completed successfully!'',
                          Text (''Output file: '' @ ''pts.csv'')] (snd ?c)), 0)"
    by simp
  have 4: "snd (main example_lib points_args disk) = 0"
    by (simp add: 3)
  have 5: "stdout (fst (main example_lib points_args disk))
        = [Loaded 2, GeomTypes [CStr ''Point''],
           CrsLine (Some (CRS (Some 4326) ''EPSG:4326'')),
           Text ''Successfully saved CSV to: pts.csv'', CsvShape 2 3,
           ColumnList [''name'', ''longitude'', ''latitude''],
           Text [], Text ''Conversion completed successfully!'',
           Text ''Output file: pts.csv'',
           Text [], Text ''Preview of first 5 rows:'',
           Preview ?t]"
    unfolding 3
    by (simp add: world_defs frame_defs example_lib_def two_points_def points_args_def)
  show ?thesis
    by (intro conjI) (rule m 1 2 [THEN conjunct1] 2 [THEN conjunct2] 4 5)+
qed

text \<open>
  The claim as stated fails when the conversion succeeds and the CSV has no column: for
  a feature set without attribute columns in mode \<^verbatim>\<open>none\<close>, \<^verbatim>\<open>convert\<close> returns the path and
  the completion message is printed, but reading the CSV back raises and the exit code
  is 1.
\<close>

theorem exit_code_after_conversion_counterexample:
  "files disk ''bare.shp'' = Some (Dataset bare_point)
   \<and> coord_format_arg bare_args \<in> set choices
   \<and> fst (convert_shapefile_to_csv example_lib (shapefile bare_args) (output_arg bare_args)
             (\<not> no_geometry bare_args) (coord_format_arg bare_args) disk)
        = Inr ''bare.csv''
   \<and> files (snd (convert_shapefile_to_csv example_lib (shapefile bare_args)
                    (output_arg bare_args) (\<not> no_geometry bare_args)
                    (coord_format_arg bare_args) disk)) ''bare.csv''
        = Some (CsvFile \<lparr>header = [], rows = [[]]\<rparr>)
   \<and> snd (main example_lib bare_args disk) = 1
   \<and> stdout (fst (main example_lib bare_args disk))
        = [Loaded 1, GeomTypes [CStr ''Point''], CrsLine None,
           Text ''Successfully saved CSV to: bare.csv'', CsvShape 1 0, ColumnList [],
           Text [], Text ''Conversion completed successfully!'',
           Text ''Output file: bare.csv'',
           Text ''Error: No columns to parse from file'']"
  by (simp add: world_defs frame_defs example_lib_def bare_point_def bare_args_def)

subsection \<open>C7: the clean-up scan\<close>

text \<open>
  C7, as amended. The scan keeps the names and the order of the columns. It replaces a
  column exactly when the column has dtype \<^verbatim>\<open>object\<close>, has a row, and its first cell is a
  geometry object; every cell of such a column becomes its \<^verbatim>\<open>str\<close>, so a column of
  geometry objects of dtype \<^verbatim>\<open>object\<close> becomes the column of their text encodings. A
  column without rows stays (its \<^verbatim>\<open>iloc[0]\<close> raises IndexError, which is swallowed), and
  so does every column of another dtype. (The frames that the coordinate policy produces
  have pairwise distinct column names.)
\<close>

theorem scan_effect:
  assumes "distinct (columns df)"
  shows "columns (cleanup lib df) = columns df
       \<and> (\<forall>k c. map_of df k = Some c \<longrightarrow>
             map_of (cleanup lib df) k
               = Some (if dtype c = DObject \<and> (\<exists>v vs. cells c = v # vs \<and> has_geom_type v)
                       then \<lparr>dtype = DObject,
                             cells = map (\<lambda>v. CStr (py_str lib v)) (cells c)\<rparr>
                       else c))
       \<and> (\<forall>k c g gs. map_of df k = Some c \<and> dtype c = DObject \<and> cells c = map CGeom (g # gs) \<longrightarrow>
             map_of (cleanup lib df) k
               = Some \<lparr>dtype = DObject, cells = map (\<lambda>s. CStr (geom_str lib s)) (g # gs)\<rparr>)
       \<and> (\<forall>k c. map_of df k = Some c \<and> cells c = [] \<longrightarrow>
             iloc0 (cells c) = Inl (IndexError ''single positional indexer is out-of-bounds'')
             \<and> map_of (cleanup lib df) k = Some c)
       \<and> (\<forall>k c. map_of df k = Some c \<and> dtype c \<noteq> DObject \<longrightarrow>
             map_of (cleanup lib df) k = Some c)"
proof -
  have m: "\<And>k c. map_of df k = Some c \<Longrightarrow> map_of (cleanup lib df) k = Some (scanned lib c)"
    using assms by (simp add: cleanup_eq map_of_scanned)
  have n: "columns (cleanup lib df) = columns df"
    using assms by (rule columns_cleanup)
  show ?thesis
    using n by (auto simp: m scanned_cases iloc0_def)
qed

theorem scan_effect_witness:
  "distinct (columns (frame_of shape_attr))
   \<and> map_of (frame_of shape_attr) ''shape''
        = Some \<lparr>dtype = DObject, cells = map CGeom [Point (Some (1, 2))]\<rparr>
   \<and> map_of (cleanup example_lib (frame_of shape_attr)) ''shape''
        = Some \<lparr>dtype = DObject, cells = [CStr ''STR Point'']\<rparr>
   \<and> map_of (cleanup example_lib (frame_of shape_attr)) ''geometry''
        = Some \<lparr>dtype = DGeometry, cells = [CGeom (LineString [(0, 0), (2, 4)])]\<rparr>
   \<and> distinct (columns (frame_of no_features))
   \<and> map_of (cleanup example_lib (frame_of no_features)) ''name''
        = Some \<lparr>dtype = DObject, cells = []\<rparr>"
proof -
  have d: "distinct (columns (frame_of shape_attr))"
    by (simp add: frame_of_def columns_def shape_attr_def)
  have s: "map_of (frame_of shape_attr) ''shape''
             = Some \<lparr>dtype = DObject, cells = map CGeom [Point (Some (1, 2))]\<rparr>"
    by (simp add: frame_of_def shape_attr_def object_column_def)
  have g: "map_of (frame_of shape_attr) ''geometry''
             = Some \<lparr>dtype = DGeometry, cells = [CGeom (LineString [(0, 0), (2, 4)])]\<rparr>"
    by (simp add: frame_of_def shape_attr_def object_column_def geom_cell_def)
  have 1: "map_of (cleanup example_lib (frame_of shape_attr)) ''shape''
        = Some \<lparr>dtype = DObject,
                cells = map (\<lambda>s. CStr (geom_str example_lib s)) [Point (Some (1, 2))]\<rparr>"
    using scan_effect [OF d, of example_lib] s by simp
  have 2: "map_of (cleanup example_lib (frame_of shape_attr)) ''geometry''
        = Some \<lparr>dtype = DGeometry, cells = [CGeom (LineString [(0, 0), (2, 4)])]\<rparr>"
    using scan_effect [OF d, of example_lib] g by simp
  have d0: "distinct (columns (frame_of no_features))"
    by (simp add: frame_of_def columns_def no_features_def)
  have n: "map_of (frame_of no_features) ''name'' = Some \<lparr>dtype = DObject, cells = []\<rparr>"
    by (simp add: frame_of_def no_features_def object_column_def)
  have 3: "map_of (cleanup example_lib (frame_of no_features)) ''name''
        = Some \<lparr>dtype = DObject, cells = []\<rparr>"
    using scan_effect [OF d0, of example_lib] n by simp
  show ?thesis
    using d s 1 2 d0 3 by (simp add: example_lib_def)
qed

text \<open>
  The claim as stated fails on the geometry column itself, which an unknown
  \<^verbatim>\<open>coord_format\<close> leaves in the frame: its cells are geometry objects, its dtype is
  \<^verbatim>\<open>geometry\<close>, not \<^verbatim>\<open>object\<close>, and the scan does not convert it.
\<close>

theorem scan_skips_geometry_counterexample:
  "flatten example_lib True ''foo'' (frame_of two_points) = Inr (frame_of two_points)
   \<and> map_of (frame_of two_points) ''geometry''
        = Some \<lparr>dtype = DGeometry,
                cells = [CGeom (Point (Some (1, 2))), CGeom (Point (Some (3, 4)))]\<rparr>
   \<and> map_of (cleanup example_lib (frame_of two_points)) ''geometry''
        = Some \<lparr>dtype = DGeometry,
                cells = [CGeom (Point (Some (1, 2))), CGeom (Point (Some (3, 4)))]\<rparr>"
  by (simp add: frame_defs two_points_def)

subsection \<open>C8: reading the CSV back\<close>

text \<open>
  C8, as amended. For every feature set read from the source and a \<^verbatim>\<open>coord_format\<close> among
  the four modes: whenever \<^verbatim>\<open>convert\<close> returns a path, the CSV written at that path has
  the column names that the policy table predicts as its header and one record per
  feature. Reading it back gives that very table, hence one row per feature and exactly
  the predicted names, provided that no predicted name is empty and that no line of the
  file is blank to the reader; no line is blank when the table has two columns or more.
  The path returned is the destination that was written, which is the path supplied or,
  when none is supplied, the source path with its suffix replaced by \<^verbatim>\<open>.csv\<close>. And
  \<^verbatim>\<open>convert\<close> does return whenever the destination can be derived and written and the
  policy can flatten the feature set.
\<close>

theorem csv_round_trip:
  assumes "wf_fs fs" and "files w shp_path = Some (Dataset fs)"
    and "coord_format \<in> set choices"
  shows "(\<forall>p w'.
            convert_shapefile_to_csv lib shp_path csv_path include_geometry coord_format w
              = (Inr p, w') \<longrightarrow>
            (\<exists>t. files w' p = Some (CsvFile t)
                \<and> header t = predicted_columns include_geometry coord_format fs
                \<and> length (rows t) = n_features fs
                \<and> ([] \<notin> set (predicted_columns include_geometry coord_format fs)
                    \<and> \<not> list_ex blank_line (header t # rows t) \<longrightarrow>
                   read_csv lib w' p = Inr t)
                \<and> (2 \<le> length (predicted_columns include_geometry coord_format fs) \<longrightarrow>
                   \<not> list_ex blank_line (header t # rows t)))
            \<and> ([] \<notin> set (predicted_columns include_geometry coord_format fs)
                \<and> 2 \<le> length (predicted_columns include_geometry coord_format fs) \<longrightarrow>
               (\<exists>u. read_csv lib w' p = Inr u
                   \<and> length (rows u) = n_features fs
                   \<and> header u = predicted_columns include_geometry coord_format fs))
            \<and> destination lib shp_path csv_path = Inr p
            \<and> (csv_path = None \<longrightarrow> with_suffix_csv lib shp_path = Inr p)
            \<and> (\<forall>q. csv_path = Some q \<longrightarrow> p = q))
       \<and> (\<forall>p. destination lib shp_path csv_path = Inr p \<and> write_error w p = None
               \<and> flattenable include_geometry coord_format fs \<longrightarrow>
            (\<exists>w'. convert_shapefile_to_csv lib shp_path csv_path include_geometry
                      coord_format w = (Inr p, w')))"
proof (intro conjI allI impI)
  fix p w'
  assume c: "convert_shapefile_to_csv lib shp_path csv_path include_geometry coord_format w
               = (Inr p, w')"
  from convert_Inr_D [OF assms(2) c] obtain df where
    d: "destination lib shp_path csv_path = Inr p"
    and out: "output_table lib include_geometry coord_format fs = Inr df"
    and fl: "files w' = (files w)(p \<mapsto> CsvFile (to_csv lib (n_features fs) df))"
    by blast
  let ?pc = "predicted_columns include_geometry coord_format fs"
  have cols: "columns df = ?pc"
    by (rule output_table_columns(2) [OF assms(1) out assms(3)])
  from output_table_D [OF assms(1) out] have dist: "distinct (columns df)"
    by auto
  have "length (columns df) = length df"
    by (simp add: columns_def)
  then have len: "length df = length ?pc"
    by (simp add: cols)
  let ?t = "to_csv lib (n_features fs) df"
  have f: "files w' p = Some (CsvFile ?t)"
    by (simp add: fl)
  have h: "header ?t = ?pc"
    by (simp add: cols)
  have n: "length (rows ?t) = n_features fs"
    by simp
  have rd: "read_csv lib w' p = Inr ?t"
    if "[] \<notin> set ?pc \<and> \<not> list_ex blank_line (header ?t # rows ?t)"
    using that dist cols by (intro read_csv_written [OF f]) simp_all
  have nb: "\<not> list_ex blank_line (header ?t # rows ?t)" if "2 \<le> length ?pc"
    using that len by (intro to_csv_no_blank) simp
  show "\<exists>t. files w' p = Some (CsvFile t)
                \<and> header t = ?pc
                \<and> length (rows t) = n_features fs
                \<and> ([] \<notin> set ?pc \<and> \<not> list_ex blank_line (header t # rows t) \<longrightarrow>
                   read_csv lib w' p = Inr t)
                \<and> (2 \<le> length ?pc \<longrightarrow> \<not> list_ex blank_line (header t # rows t))"
    using f h n rd nb by (intro exI [of _ ?t]) blast
  show "\<exists>u. read_csv lib w' p = Inr u
                   \<and> length (rows u) = n_features fs
                   \<and> header u = ?pc"
    if "[] \<notin> set ?pc \<and> 2 \<le> length ?pc"
    using rd nb that h n by (intro exI [of _ ?t]) blast
  show "destination lib shp_path csv_path = Inr p"
    by (rule d)
  show "with_suffix_csv lib shp_path = Inr p" if "csv_path = None"
    using destination_D [OF d] that by simp
  show "p = q" if "csv_path = Some q" for q
    using destination_D [OF d] that by simp
next
  fix p
  assume a: "destination lib shp_path csv_path = Inr p \<and> write_error w p = None
               \<and> flattenable include_geometry coord_format fs"
  then obtain df where out: "output_table lib include_geometry coord_format fs = Inr df"
    using output_table_total [OF assms(1), of include_geometry coord_format lib] by blast
  from convert_ok [OF assms(2) _ out] a
  show "\<exists>w'. convert_shapefile_to_csv lib shp_path csv_path include_geometry
                      coord_format w = (Inr p, w')"
    by blast
qed

theorem csv_round_trip_witness:
  "wf_fs two_points \<and> files disk ''pts.shp'' = Some (Dataset two_points)
   \<and> ''separate'' \<in> set choices
   \<and> predicted_columns True ''separate'' two_points = [''name'', ''longitude'', ''latitude'']
   \<and> fst (convert_shapefile_to_csv example_lib ''pts.shp'' None True ''separate'' disk)
        = Inr ''pts.csv''
   \<and> (\<exists>u. read_csv example_lib
               (snd (convert_shapefile_to_csv example_lib ''pts.shp'' None True
                       ''separate'' disk)) ''pts.csv'' = Inr u
          \<and> length (rows u) = n_features two_points
          \<and> header u = predicted_columns True ''separate'' two_points)
   \<and> with_suffix_csv example_lib ''pts.shp'' = Inr ''pts.csv''
   \<and> read_csv example_lib
         (snd (convert_shapefile_to_csv example_lib ''pts.shp'' None True ''separate'' disk))
         ''pts.csv''
        = Inr \<lparr>header = [''name'', ''longitude'', ''latitude''],
                rows = [[''a'', ''F'', ''F''], [''b'', ''F'', ''F'']]\<rparr>"
proof -
  let ?c = "convert_shapefile_to_csv example_lib ''pts.shp'' None True ''separate'' disk"
  let ?pc = "predicted_columns True ''separate'' two_points"
  have h1: "wf_fs two_points"
    by (simp add: wf_fs_def two_points_def object_column_def)
  have h2: "files disk ''pts.shp'' = Some (Dataset two_points)"
    by (simp add: disk_def)
  have h3: "''separate'' \<in> set choices"
    by (simp add: choices_def)
  have p: "?pc = [''name'', ''longitude'', ''latitude'']"
    by (simp add: predicted_columns_def two_points_def columns_def add_name_def is_point_def)
  have h4: "[] \<notin> set ?pc \<and> 2 \<le> length ?pc"
    by (simp add: p)
  have c: "?c = (Inr ''pts.csv'', snd ?c)"
    by (simp add: world_defs frame_defs example_lib_def two_points_def)
  have r: "read_csv example_lib (snd ?c) ''pts.csv''
        = Inr \<lparr>header = [''name'', ''longitude'', ''latitude''],
                rows = [[''a'', ''F'', ''F''], [''b'', ''F'', ''F'']]\<rparr>"
    by (simp add: world_defs frame_defs example_lib_def two_points_def)
  have fc: "fst ?c = Inr ''pts.csv''"
    using c by (metis fst_conv)
  from csv_round_trip [OF h1 h2 h3, of example_lib None True]
  have "?c = (Inr ''pts.csv'', snd ?c) \<longrightarrow>
          ([] \<notin> set ?pc \<and> 2 \<le> length ?pc \<longrightarrow>
             (\<exists>u. read_csv example_lib (snd ?c) ''pts.csv'' = Inr u
                 \<and> length (rows u) = n_features two_points
                 \<and> header u = ?pc))
          \<and> (None = (None :: string option) \<longrightarrow>
               with_suffix_csv example_lib ''pts.shp'' = Inr ''pts.csv'')"
    by blast
  with c h4 have e: "\<exists>u. read_csv example_lib (snd ?c) ''pts.csv'' = Inr u
                 \<and> length (rows u) = n_features two_points
                 \<and> header u = ?pc"
    and s: "with_suffix_csv example_lib ''pts.shp'' = Inr ''pts.csv''"
    by blast+
  show ?thesis
    by (intro conjI) (rule h1 h2 h3 p fc e s r)+
qed

text \<open>
  The claim as stated fails in three ways. A feature set without attribute columns in
  mode \<^verbatim>\<open>none\<close> gives a file without a column name, and reading it back raises
  EmptyDataError. An attribute without a name is read back under the name
  \<^verbatim>\<open>Unnamed: 0\<close>, which is not the predicted name. And a table of one column whose value is
  a space gives a line that the reader skips, so that a feature set of one feature is
  read back with no row.
\<close>

theorem csv_round_trip_counterexample:
  "wf_fs bare_point \<and> files disk ''bare.shp'' = Some (Dataset bare_point)
   \<and> n_features bare_point = 1
   \<and> fst (convert_shapefile_to_csv example_lib ''bare.shp'' None True ''none'' disk)
        = Inr ''bare.csv''
   \<and> files (snd (convert_shapefile_to_csv example_lib ''bare.shp'' None True ''none'' disk))
         ''bare.csv''
        = Some (CsvFile \<lparr>header = [], rows = [[]]\<rparr>)
   \<and> read_csv example_lib
         (snd (convert_shapefile_to_csv example_lib ''bare.shp'' None True ''none'' disk))
         ''bare.csv''
        = Inl (EmptyDataError ''No columns to parse from file'')
   \<and> wf_fs unnamed_attr \<and> files odd_disk ''unnamed.shp'' = Some (Dataset unnamed_attr)
   \<and> predicted_columns True ''none'' unnamed_attr = [[], ''name'']
   \<and> fst (convert_shapefile_to_csv example_lib ''unnamed.shp'' None True ''none'' odd_disk)
        = Inr ''unnamed.csv''
   \<and> read_csv example_lib
         (snd (convert_shapefile_to_csv example_lib ''unnamed.shp'' None True ''none''
                 odd_disk)) ''unnamed.csv''
        = Inr \<lparr>header = [''Unnamed: 0'', ''name''], rows = [[''x'', ''a'']]\<rparr>
   \<and> wf_fs blank_attr \<and> files odd_disk ''blank.shp'' = Some (Dataset blank_attr)
   \<and> n_features blank_attr = 1
   \<and> fst (convert_shapefile_to_csv example_lib ''blank.shp'' None True ''none'' odd_disk)
        = Inr ''blank.csv''
   \<and> files (snd (convert_shapefile_to_csv example_lib ''blank.shp'' None True ''none''
                    odd_disk)) ''blank.csv''
        = Some (CsvFile \<lparr>header = [''name''], rows = [['' '']]\<rparr>)
   \<and> read_csv example_lib
         (snd (convert_shapefile_to_csv example_lib ''blank.shp'' None True ''none''
                 odd_disk)) ''blank.csv''
        = Inr \<lparr>header = [''name''], rows = []\<rparr>"
proof -
  have b: "wf_fs bare_point \<and> files disk ''bare.shp'' = Some (Dataset bare_point)
   \<and> n_features bare_point = 1
   \<and> fst (convert_shapefile_to_csv example_lib ''bare.shp'' None True ''none'' disk)
        = Inr ''bare.csv''
   \<and> files (snd (convert_shapefile_to_csv example_lib ''bare.shp'' None True ''none'' disk))
         ''bare.csv''
        = Some (CsvFile \<lparr>header = [], rows = [[]]\<rparr>)
   \<and> read_csv example_lib
         (snd (convert_shapefile_to_csv example_lib ''bare.shp'' None True ''none'' disk))
         ''bare.csv''
        = Inl (EmptyDataError ''No columns to parse from file'')"
    by (simp add: world_defs frame_defs example_lib_def bare_point_def wf_fs_def)
  have u: "wf_fs unnamed_attr \<and> files odd_disk ''unnamed.shp'' = Some (Dataset unnamed_attr)
   \<and> predicted_columns True ''none'' unnamed_attr = [[], ''name'']
   \<and> fst (convert_shapefile_to_csv example_lib ''unnamed.shp'' None True ''none'' odd_disk)
        = Inr ''unnamed.csv''
   \<and> read_csv example_lib
         (snd (convert_shapefile_to_csv example_lib ''unnamed.shp'' None True ''none''
                 odd_disk)) ''unnamed.csv''
        = Inr \<lparr>header = [''Unnamed: 0'', ''name''], rows = [[''x'', ''a'']]\<rparr>"
    by (simp add: world_defs frame_defs example_lib_def unnamed_attr_def odd_disk_def
          wf_fs_def object_column_def predicted_columns_def columns_def
          string_of_nat.simps [of 0])
  have k: "wf_fs blank_attr \<and> files odd_disk ''blank.shp'' = Some (Dataset blank_attr)
   \<and> n_features blank_attr = 1
   \<and> fst (convert_shapefile_to_csv example_lib ''blank.shp'' None True ''none'' odd_disk)
        = Inr ''blank.csv''
   \<and> files (snd (convert_shapefile_to_csv example_lib ''blank.shp'' None True ''none''
                    odd_disk)) ''blank.csv''
        = Some (CsvFile \<lparr>header = [''name''], rows = [['' '']]\<rparr>)
   \<and> read_csv example_lib
         (snd (convert_shapefile_to_csv example_lib ''blank.shp'' None True ''none''
                 odd_disk)) ''blank.csv''
        = Inr \<lparr>header = [''name''], rows = []\<rparr>"
    by (simp add: world_defs frame_defs example_lib_def blank_attr_def odd_disk_def
          wf_fs_def object_column_def)
  show ?thesis
    using b u k by (simp only: simp_thms)
qed

subsection \<open>C9: a \<^verbatim>\<open>coord_format\<close> outside the four modes\<close>

text \<open>
  C9, as amended. For every feature set read from the source, with
  \<^verbatim>\<open>include_geometry = True\<close> and a \<^verbatim>\<open>coord_format\<close> outside the four modes, a derivable and
  writable destination: \<^verbatim>\<open>convert\<close> does not raise; no branch of the policy runs and the
  geometry column stays in the frame; the CSV written has the attribute names followed by
  \<^verbatim>\<open>geometry\<close> as its header, so no longitude, latitude, geometry_type or geometry_wkt
  column is added; it has one row per feature; and its \<^verbatim>\<open>geometry\<close> column holds the text
  encoding of each geometry, as the writer produces it (empty for a missing geometry).
\<close>

theorem unknown_mode_keeps_geometry:
  assumes "wf_fs fs" and "coord_format \<notin> set choices"
    and "files w shp_path = Some (Dataset fs)"
    and "destination lib shp_path csv_path = Inr p"
    and "write_error w p = None"
  shows "\<exists>w' fs' t.
           reproject_step lib fs = Inr fs'
         \<and> flatten lib True coord_format (frame_of fs') = Inr (frame_of fs')
         \<and> convert_shapefile_to_csv lib shp_path csv_path True coord_format w = (Inr p, w')
         \<and> files w' p = Some (CsvFile t)
         \<and> header t = columns (attrs fs) @ [''geometry'']
         \<and> length (rows t) = n_features fs
         \<and> csv_column t (length (attrs fs)) = map (geom_field lib) (geoms fs')"
proof -
  obtain fs' where r: "reproject_step lib fs = Inr fs'"
    by (simp add: reproject_step_eq)
  have wf': "wf_fs fs'"
    using reproject_step_facts(5) [OF r] assms(1) by simp
  have a: "attrs fs' = attrs fs" and n: "n_features fs' = n_features fs"
    using reproject_step_facts(1) [OF r] reproject_shape(3) [OF r] by simp_all
  have f: "flatten lib True coord_format (frame_of fs') = Inr (frame_of fs')"
    by (rule flatten_other [OF assms(2)])
  let ?df = "map (\<lambda>(n, c). (n, scanned lib c)) (frame_of fs')"
  have out: "output_table lib True coord_format fs = Inr ?df"
    by (rule output_table_eq [OF r f distinct_frame_of [OF wf']])
  from convert_ok [OF assms(3,4) out assms(5)] obtain w' where
    c: "convert_shapefile_to_csv lib shp_path csv_path True coord_format w = (Inr p, w')"
    and fl: "files w' = (files w)(p \<mapsto> CsvFile (to_csv lib (n_features fs) ?df))"
    by blast
  let ?t = "to_csv lib (n_features fs) ?df"
  have h: "header ?t = columns (attrs fs) @ [''geometry'']"
    using a by (simp add: columns_frame_of)
  have j: "length (attrs fs) < length ?df"
    using a by (simp add: frame_of_def)
  have col: "snd (?df ! length (attrs fs))
               = \<lparr>dtype = DGeometry, cells = map geom_cell (geoms fs')\<rparr>"
    using a by (simp add: frame_of_def nth_append)
  have "csv_column ?t (length (attrs fs)) = map (geom_field lib) (geoms fs')"
    using csv_column_to_csv [OF j, of "n_features fs" lib] n
    by (simp add: col n_features_def comp_def)
  moreover have "files w' p = Some (CsvFile ?t)"
    by (simp add: fl)
  moreover have "length (rows ?t) = n_features fs"
    by simp
  ultimately show ?thesis
    using r f c h by blast
qed

theorem unknown_mode_keeps_geometry_witness:
  "wf_fs one_line \<and> ''foo'' \<notin> set choices
   \<and> files disk ''lines.shp'' = Some (Dataset one_line)
   \<and> destination example_lib ''lines.shp'' None = Inr ''lines.csv''
   \<and> write_error disk ''lines.csv'' = None
   \<and> (\<exists>w' fs' t.
           reproject_step example_lib one_line = Inr fs'
         \<and> flatten example_lib True ''foo'' (frame_of fs') = Inr (frame_of fs')
         \<and> convert_shapefile_to_csv example_lib ''lines.shp'' None True ''foo'' disk
              = (Inr ''lines.csv'', w')
         \<and> files w' ''lines.csv'' = Some (CsvFile t)
         \<and> header t = columns (attrs one_line) @ [''geometry'']
         \<and> length (rows t) = n_features one_line
         \<and> csv_column t (length (attrs one_line)) = map (geom_field example_lib) (geoms fs'))
   \<and> files (snd (convert_shapefile_to_csv example_lib ''lines.shp'' None True ''foo'' disk))
         ''lines.csv''
        = Some (CsvFile \<lparr>header = [''name'', ''geometry''],
                         rows = [[''a'', ''STR LineString'']]\<rparr>)"
proof -
  have h1: "wf_fs one_line"
    by (simp add: wf_fs_def one_line_def object_column_def)
  have h2: "''foo'' \<notin> set choices"
    by (simp add: choices_def)
  have h3: "files disk ''lines.shp'' = Some (Dataset one_line)"
    by (simp add: disk_def)
  have h4: "destination example_lib ''lines.shp'' None = Inr ''lines.csv''"
    by (simp add: destination_def example_lib_def)
  have h5: "write_error disk ''lines.csv'' = None"
    by (simp add: disk_def)
  have e: "files (snd (convert_shapefile_to_csv example_lib ''lines.shp'' None True ''foo'' disk))
         ''lines.csv''
        = Some (CsvFile \<lparr>header = [''name'', ''geometry''],
                         rows = [[''a'', ''STR LineString'']]\<rparr>)"
    by (simp add: world_defs frame_defs example_lib_def one_line_def)
  show ?thesis
    using unknown_mode_keeps_geometry [OF h1 h2 h3 h4 h5] h1 h2 h3 h4 h5 e by blast
qed

text \<open>
  The claim as stated fails on a feature set with an attribute called \<^verbatim>\<open>longitude\<close>: the
  scan leaves the geometry column as geometry objects (its dtype is not \<^verbatim>\<open>object\<close>), and
  the CSV has a \<^verbatim>\<open>longitude\<close> column.
\<close>

theorem unknown_mode_counterexample:
  "wf_fs lon_point \<and> ''foo'' \<notin> set choices
   \<and> files disk ''lon.shp'' = Some (Dataset lon_point)
   \<and> flatten example_lib True ''foo'' (frame_of lon_point) = Inr (frame_of lon_point)
   \<and> cleanup example_lib (frame_of lon_point)
        = [(''longitude'', float_column [CFloat 9]),
           (''geometry'', \<lparr>dtype = DGeometry, cells = [CGeom (Point (Some (1, 2)))]\<rparr>)]
   \<and> fst (convert_shapefile_to_csv example_lib ''lon.shp'' None True ''foo'' disk)
        = Inr ''lon.csv''
   \<and> files (snd (convert_shapefile_to_csv example_lib ''lon.shp'' None True ''foo'' disk))
         ''lon.csv''
        = Some (CsvFile \<lparr>header = [''longitude'', ''geometry''],
                         rows = [[''F'', ''STR Point'']]\<rparr>)"
  by (simp add: world_defs frame_defs example_lib_def lon_point_def wf_fs_def)

subsection \<open>C10: a feature set without features\<close>

text \<open>
  C10. For every feature set with zero features read from the source, a derivable and
  writable destination, any \<^verbatim>\<open>coord_format\<close> and any \<^verbatim>\<open>include_geometry\<close>: \<^verbatim>\<open>convert\<close> returns
  the destination path instead of raising; the coordinate policy succeeds; the inspection
  of the first cell of each column of its frame raises IndexError, and the scan leaves
  the frame unchanged; the file written holds the header and no row.
\<close>

theorem empty_feature_set_converts:
  assumes "wf_fs fs" and "geoms fs = []"
    and "files w shp_path = Some (Dataset fs)"
    and "destination lib shp_path csv_path = Inr p"
    and "write_error w p = None"
  shows "\<exists>w' fs' df.
           reproject_step lib fs = Inr fs'
         \<and> flatten lib include_geometry coord_format (frame_of fs') = Inr df
         \<and> (\<forall>(n, c) \<in> set df.
               iloc0 (cells c) = Inl (IndexError ''single positional indexer is out-of-bounds''))
         \<and> cleanup lib df = df
         \<and> convert_shapefile_to_csv lib shp_path csv_path include_geometry coord_format w
             = (Inr p, w')
         \<and> files w' p = Some (CsvFile \<lparr>header = columns df, rows = []\<rparr>)"
proof -
  obtain fs' where r: "reproject_step lib fs = Inr fs'"
    by (simp add: reproject_step_eq)
  have wf': "wf_fs fs'"
    using reproject_step_facts(5) [OF r] assms(1) by simp
  have e: "geoms fs' = []"
    using reproject_step_facts(2) [OF r] assms(2) by simp
  have n: "n_features fs = 0"
    using assms(2) by (simp add: n_features_def)
  have "flattenable include_geometry coord_format fs'"
    using e by (simp add: flattenable_def)
  from flatten_total [OF wf' this, of lib] obtain df where
    f: "flatten lib include_geometry coord_format (frame_of fs') = Inr df"
    by blast
  have at: "list_all (\<lambda>(n, c). cells c = []) (attrs fs')"
    using wf' e by (simp add: wf_fs_def)
  have "list_all (\<lambda>(n, c). cells c = []) df"
    unfolding flatten_result(1) [OF wf' f]
    using at e
    by (simp add: point_frame_def centroid_frame_def wkt_frame_def frame_of_def
          float_column_def object_column_def all_empty_set_col)
  then have emp: "\<And>n c. (n, c) \<in> set df \<Longrightarrow> cells c = []"
    by (auto simp: list_all_iff)
  have d: "distinct (columns df)"
    by (rule flatten_distinct [OF wf' f])
  have "map (\<lambda>(n, c). (n, scanned lib c)) df = df"
    using emp by (intro map_idI) (auto simp: scanned_def needs_str_def)
  then have cl: "cleanup lib df = df"
    using d by (simp add: cleanup_eq)
  have out: "output_table lib include_geometry coord_format fs = Inr df"
    using r f cl by (simp add: output_table_def)
  from convert_ok [OF assms(3,4) out assms(5)] obtain w' where
    c: "convert_shapefile_to_csv lib shp_path csv_path include_geometry coord_format w
          = (Inr p, w')"
    and fl: "files w' = (files w)(p \<mapsto> CsvFile (to_csv lib (n_features fs) df))"
    by blast
  have "to_csv lib (n_features fs) df = \<lparr>header = columns df, rows = []\<rparr>"
    using n by (simp add: to_csv_def)
  then have written: "files w' p = Some (CsvFile \<lparr>header = columns df, rows = []\<rparr>)"
    by (simp add: fl)
  have idx: "\<forall>(n, c) \<in> set df.
               iloc0 (cells c) = Inl (IndexError ''single positional indexer is out-of-bounds'')"
    using emp by (auto simp: iloc0_def)
  show ?thesis
    using r f idx cl c written by blast
qed

theorem empty_feature_set_converts_witness:
  "wf_fs no_features \<and> geoms no_features = []
   \<and> files disk ''empty.shp'' = Some (Dataset no_features)
   \<and> destination example_lib ''empty.shp'' None = Inr ''empty.csv''
   \<and> write_error disk ''empty.csv'' = None
   \<and> (\<exists>w' fs' df.
           reproject_step example_lib no_features = Inr fs'
         \<and> flatten example_lib True ''separate'' (frame_of fs') = Inr df
         \<and> cleanup example_lib df = df
         \<and> convert_shapefile_to_csv example_lib ''empty.shp'' None True ''separate'' disk
             = (Inr ''empty.csv'', w')
         \<and> files w' ''empty.csv'' = Some (CsvFile \<lparr>header = columns df, rows = []\<rparr>))
   \<and> files (snd (convert_shapefile_to_csv example_lib ''empty.shp'' None True ''separate''
                     disk)) ''empty.csv''
        = Some (CsvFile \<lparr>header = [''name'', ''longitude'', ''latitude'', ''geometry_type''],
                         rows = []\<rparr>)"
proof -
  have h1: "wf_fs no_features"
    by (simp add: wf_fs_def no_features_def object_column_def)
  have h2: "geoms no_features = []"
    by (simp add: no_features_def)
  have h3: "files disk ''empty.shp'' = Some (Dataset no_features)"
    by (simp add: disk_def)
  have h4: "destination example_lib ''empty.shp'' None = Inr ''empty.csv''"
    by (simp add: destination_def example_lib_def)
  have h5: "write_error disk ''empty.csv'' = None"
    by (simp add: disk_def)
  have e: "files (snd (convert_shapefile_to_csv example_lib ''empty.shp'' None True
                     ''separate'' disk)) ''empty.csv''
        = Some (CsvFile \<lparr>header = [''name'', ''longitude'', ''latitude'', ''geometry_type''],
                         rows = []\<rparr>)"
    by (simp add: world_defs frame_defs example_lib_def no_features_def)
  from empty_feature_set_converts [OF h1 h2 h3 h4 h5, of True "''separate''"]
  obtain w' fs' df where
    "reproject_step example_lib no_features = Inr fs'"
    "flatten example_lib True ''separate'' (frame_of fs') = Inr df"
    "cleanup example_lib df = df"
    "convert_shapefile_to_csv example_lib ''empty.shp'' None True ''separate'' disk
             = (Inr ''empty.csv'', w')"
    "files w' ''empty.csv'' = Some (CsvFile \<lparr>header = columns df, rows = []\<rparr>)"
    by blast
  then show ?thesis
    using h1 h2 h3 h4 h5 e by blast
qed

end
